theory Spec2Isabelle
  imports Main
begin

section \<open>JavaScript helpers used by download.mjs\<close>

text \<open>
  Strings are \<open>char list\<close>; a character is one byte, so file contents and
  stream chunks (Node Buffers) are strings as well. The helpers cover the ASCII
  range of the JavaScript built-ins they stand for.
\<close>

definition is_space :: "char \<Rightarrow> bool" where
  "is_space c = (c \<in> set [CHR '' '', CHR 0x09, CHR 0x0A, CHR 0x0B, CHR 0x0C, CHR 0x0D])"

text \<open>\<open>String.prototype.trim\<close>.\<close>

definition trim :: "string \<Rightarrow> string" where
  "trim s = rev (dropWhile is_space (rev (dropWhile is_space s)))"

definition lower_char :: "char \<Rightarrow> char" where
  "lower_char c =
     (let n = (of_char c :: nat) in if 65 \<le> n \<and> n \<le> 90 then char_of (n + 32) else c)"

text \<open>\<open>String.prototype.toLowerCase\<close>.\<close>

definition toLowerCase :: "string \<Rightarrow> string" where
  "toLowerCase s = map lower_char s"

fun starts_with :: "string \<Rightarrow> string \<Rightarrow> bool" where
  "starts_with s [] = True"
| "starts_with [] (y # ys) = False"
| "starts_with (x # xs) (y # ys) = (x = y \<and> starts_with xs ys)"

text \<open>\<open>String.prototype.includes\<close>.\<close>

fun str_includes :: "string \<Rightarrow> string \<Rightarrow> bool" where
  "str_includes [] t = (t = [])"
| "str_includes (x # xs) t = (starts_with (x # xs) t \<or> str_includes xs t)"

definition is_digit :: "char \<Rightarrow> bool" where
  "is_digit c = (let n = (of_char c :: nat) in 48 \<le> n \<and> n \<le> 57)"

definition digit_val :: "char \<Rightarrow> nat" where
  "digit_val c = of_char c - 48"

definition digits_to_nat :: "string \<Rightarrow> nat" where
  "digits_to_nat ds = foldl (\<lambda>a c. 10 * a + digit_val c) 0 ds"

text \<open>
  \<open>parseInt(s, 10)\<close>: leading white space is skipped, a sign is read, then the
  longest run of decimal digits; \<open>None\<close> is NaN.
\<close>

definition parseInt :: "string \<Rightarrow> int option" where
  "parseInt s =
     (let t = dropWhile is_space s;
          neg = (t \<noteq> [] \<and> hd t = CHR ''-'');
          u = (if t \<noteq> [] \<and> (hd t = CHR ''-'' \<or> hd t = CHR ''+'') then tl t else t);
          ds = takeWhile is_digit u
      in if ds = [] then None
         else Some ((if neg then - 1 else 1) * int (digits_to_nat ds)))"

text \<open>
  \<open>cr.match(/\/(\d+)$/)\<close>: the capture group, when the string ends in a slash
  followed by one or more digits.
\<close>

definition match_total :: "string \<Rightarrow> string option" where
  "match_total cr =
     (let ds = rev (takeWhile is_digit (rev cr));
          rest = rev (dropWhile is_digit (rev cr))
      in if ds \<noteq> [] \<and> rest \<noteq> [] \<and> last rest = CHR ''/'' then Some ds else None)"


section \<open>The world of a download: files, transport, requests\<close>

text \<open>
  \<open>Range: bytes=N-M\<close> is \<open>Range N (Some M)\<close>, \<open>Range: bytes=N-\<close> is
  \<open>Range N None\<close>.
\<close>

datatype range_header = NoRange | Range nat "nat option"

record request =
  http_method :: string
  req_url :: string
  range_hdr :: range_header

text \<open>
  A response as \<open>fetch\<close> resolves it. \<open>has_body\<close> is \<open>res.body\<close> being
  non-null; \<open>chunks\<close> are the chunks the body stream delivers, in the order and
  with the boundaries the transport chooses; \<open>stream_error\<close> says that the
  stream fails after them (a reset connection, the 120 s abort) instead of ending.
\<close>

record response =
  status :: nat
  headers :: "string \<Rightarrow> string option"
  has_body :: bool
  chunks :: "string list"
  stream_error :: bool

text \<open>\<open>res.ok\<close>.\<close>

definition ok :: "response \<Rightarrow> bool" where
  "ok res = (200 \<le> status res \<and> status res \<le> 299)"

text \<open>\<open>Rejected\<close>: the promise of \<open>fetch\<close> rejects (network error, timeout).\<close>

datatype fetch_result = Rejected | Response response

text \<open>
  \<open>files\<close> is the file system, \<open>net\<close> the results the transport gives to the
  coming requests, one each, \<open>sent\<close> the requests issued so far.

  A file operation can throw even though its source file exists (a locked
  destination, another device, missing rights). An attempt renames up to twice, to
  move the destination file into the partial slot (line 729) and to finalize (line
  849), and the two calls need not fare alike: \<open>rename_faults\<close> says for each
  coming call of \<open>rename\<close> on an existing file whether it throws, and a list that
  has run out means that the call works. An attempt copies at most once and unlinks
  at most once; \<open>copy_fails\<close> and \<open>unlink_fails\<close> say whether these throw.

  \<open>flushed_at_stop\<close> is the number of bytes, of those handed to the write stream,
  that are on disk when the limit callback tears the pipeline down. Nothing in the
  code waits for the write stream there, so the number depends on the timing of the
  disk; the torn-down attempt is the last one of the call.
\<close>

record world =
  files :: "string \<Rightarrow> string option"
  net :: "fetch_result list"
  sent :: "request list"
  rename_faults :: "bool list"
  copy_fails :: bool
  unlink_fails :: bool
  flushed_at_stop :: nat

definition fetch :: "request \<Rightarrow> world \<Rightarrow> fetch_result \<times> world" where
  "fetch rq w =
     (case net w of
        [] \<Rightarrow> (Rejected, w\<lparr>sent := sent w @ [rq]\<rparr>)
      | r # rs \<Rightarrow> (r, w\<lparr>net := rs, sent := sent w @ [rq]\<rparr>))"

text \<open>\<open>fs.statSync(p).size\<close>; \<open>None\<close> when it throws.\<close>

definition statSync :: "world \<Rightarrow> string \<Rightarrow> nat option" where
  "statSync w p = map_option length (files w p)"

text \<open>The file operations return whether they succeeded (\<open>False\<close>: they threw).\<close>

definition next_rename_fails :: "world \<Rightarrow> bool" where
  "next_rename_fails w = (case rename_faults w of [] \<Rightarrow> False | b # bs \<Rightarrow> b)"

definition rename :: "string \<Rightarrow> string \<Rightarrow> world \<Rightarrow> bool \<times> world" where
  "rename a b w =
     (case files w a of
        None \<Rightarrow> (False, w)
      | Some c \<Rightarrow>
          if next_rename_fails w then (False, w\<lparr>rename_faults := tl (rename_faults w)\<rparr>)
          else (True, w\<lparr>rename_faults := tl (rename_faults w),
                         files := ((files w)(a := None))(b \<mapsto> c)\<rparr>))"

definition copyFile :: "string \<Rightarrow> string \<Rightarrow> world \<Rightarrow> bool \<times> world" where
  "copyFile a b w =
     (case files w a of
        None \<Rightarrow> (False, w)
      | Some c \<Rightarrow>
          if copy_fails w then (False, w)
          else (True, w\<lparr>files := (files w)(b \<mapsto> c)\<rparr>))"

definition unlink :: "string \<Rightarrow> world \<Rightarrow> bool \<times> world" where
  "unlink a w =
     (case files w a of
        None \<Rightarrow> (False, w)
      | Some c \<Rightarrow>
          if unlink_fails w then (False, w)
          else (True, w\<lparr>files := (files w)(a := None)\<rparr>))"

text \<open>
  \<open>fs.createWriteStream(p, {flags})\<close>: flag \<open>w\<close> creates or truncates the file,
  flag \<open>a\<close> (\<open>appending\<close>) creates it or keeps what it holds.
\<close>

definition createWriteStream :: "string \<Rightarrow> bool \<Rightarrow> world \<Rightarrow> world" where
  "createWriteStream p appending w =
     w\<lparr>files := (files w)(p \<mapsto>
        (if appending then (case files w p of None \<Rightarrow> [] | Some c \<Rightarrow> c) else []))\<rparr>"

definition write_bytes :: "string \<Rightarrow> string \<Rightarrow> world \<Rightarrow> world" where
  "write_bytes p bs w =
     w\<lparr>files := (files w)(p \<mapsto> (case files w p of None \<Rightarrow> [] | Some c \<Rightarrow> c) @ bs)\<rparr>"


section \<open>getRemoteSizeAndRanges\<close>

text \<open>
  \<open>remote_size\<close> is the field \<open>size\<close>; \<open>None\<close> stands for \<open>undefined\<close> and
  for NaN, which the only reader (\<open>remoteInfo.size && ...\<close>) treats alike.
\<close>

record remote_info =
  remote_size :: "int option"
  acceptRanges :: bool

definition getRemoteSizeAndRanges :: "string \<Rightarrow> world \<Rightarrow> remote_info \<times> world" where
  "getRemoteSizeAndRanges url w =
     (let (h, w1) = fetch \<lparr>http_method = ''HEAD'', req_url = url, range_hdr = NoRange\<rparr> w in
      case (case h of Rejected \<Rightarrow> None | Response res \<Rightarrow> if ok res then Some res else None) of
        Some res \<Rightarrow>
          (\<lparr>remote_size =
               (case headers res ''content-length'' of
                  None \<Rightarrow> None
                | Some len \<Rightarrow> if len = [] then None else parseInt len),
            acceptRanges =
               str_includes
                 (toLowerCase (case headers res ''accept-ranges'' of None \<Rightarrow> [] | Some a \<Rightarrow> a))
                 ''bytes''\<rparr>, w1)
      | None \<Rightarrow>
          (let (g, w2) =
                 fetch \<lparr>http_method = ''GET'', req_url = url, range_hdr = Range 0 (Some 0)\<rparr> w1 in
           case g of
             Rejected \<Rightarrow> (\<lparr>remote_size = None, acceptRanges = False\<rparr>, w2)
           | Response res \<Rightarrow>
               if status res = 206 then
                 (\<lparr>remote_size =
                      (case headers res ''content-range'' of
                         None \<Rightarrow> None
                       | Some cr \<Rightarrow>
                           (case match_total cr of None \<Rightarrow> None | Some m \<Rightarrow> parseInt m)),
                   acceptRanges = True\<rparr>, w2)
               else (\<lparr>remote_size = None, acceptRanges = False\<rparr>, w2)))"


section \<open>ByteLimit\<close>

record ByteLimit =
  limit :: int
  seen :: int
  hit :: bool

text \<open>
  \<open>_transform\<close>: the new state, the bytes pushed downstream (none: the empty
  string) and whether \<open>_onLimit\<close> was called.
\<close>

definition transform :: "ByteLimit \<Rightarrow> string \<Rightarrow> ByteLimit \<times> string \<times> bool" where
  "transform bl chunk =
     (if limit bl \<le> 0 then (bl, chunk, False)
      else
        let remaining = limit bl - seen bl in
        if remaining \<le> 0 then (bl, [], False)
        else
          let buf = (if int (length chunk) > remaining then take (nat remaining) chunk else chunk);
              bl1 = bl\<lparr>seen := seen bl + int (length buf)\<rparr>
          in if \<not> hit bl1 \<and> seen bl1 \<ge> limit bl1 then (bl1\<lparr>hit := True\<rparr>, buf, True)
             else (bl1, buf, False))"

text \<open>
  The limiter over the chunks of a body: the bytes it pushes downstream and
  whether the limit callback ran. The callback destroys the readable stream, so no
  chunk after it is read. The counting stage before the limiter only feeds the
  progress line and passes every chunk on unchanged.
\<close>

fun run_limiter :: "ByteLimit \<Rightarrow> string list \<Rightarrow> string \<times> bool" where
  "run_limiter bl [] = ([], False)"
| "run_limiter bl (c # cs) =
     (case transform bl c of
        (bl1, buf, fired) \<Rightarrow>
          if fired then (buf, True)
          else (case run_limiter bl1 cs of (out, f) \<Rightarrow> (buf @ out, f)))"

text \<open>
  \<open>pipeline(readable, counter, limiter, write)\<close> as far as the file sees it: the
  bytes that are on disk when the promise settles, and whether the limit callback
  ran (\<open>byteLimitReached\<close>). A stream that ends by itself is awaited to its
  finish, so every byte pushed is on disk. The limit callback (lines 819-823)
  destroys the readable stream and aborts the request; \<open>pipeline\<close> rejects and
  tears the write stream down, and the \<open>catch\<close> (lines 828-838) goes on at once:
  of the bytes pushed only the first \<open>flushed\<close> ones are on disk, the rest is
  dropped with the stream.
\<close>

definition pipeline_limited :: "nat \<Rightarrow> ByteLimit \<Rightarrow> string list \<Rightarrow> string \<times> bool" where
  "pipeline_limited flushed bl cs =
     (case run_limiter bl cs of
        (out, fired) \<Rightarrow> (if fired then take flushed out else out, fired))"


section \<open>downloadToFile\<close>

datatype outcome = Exists | Downloaded | Undefined

text \<open>
  The errors an attempt throws: \<open>fetch\<close> rejected, \<open>HTTP <status>\<close>,
  \<open>Server did not honor range; restarting from 0\<close>, and the error of the
  pipeline.
\<close>

datatype error = FetchFailed | HttpError nat | RangeNotHonored | PipeError

text \<open>The variables of \<open>downloadToFile\<close> that live across attempts.\<close>

record dl_vars =
  existingFinalSize :: nat
  existingTmpSize :: nat
  remoteInfo :: "remote_info option"

definition tmpPath :: "string \<Rightarrow> string" where
  "tmpPath filePath = filePath @ ''.part''"

text \<open>Lines 717-735: the resume offset of an attempt.\<close>

definition decideResumeOffset ::
  "string \<Rightarrow> string \<Rightarrow> int \<Rightarrow> dl_vars \<Rightarrow> world \<Rightarrow> nat \<times> dl_vars \<times> world" where
  "decideResumeOffset url filePath sampleBytes v w =
     (if sampleBytes > 0 then (0, v, w)
      else if existingTmpSize v > 0 then (existingTmpSize v, v, w)
      else if existingFinalSize v > 0 then
        (case (case remoteInfo v of
                 Some ri \<Rightarrow> (ri, w)
               | None \<Rightarrow> getRemoteSizeAndRanges url w) of
           (ri, w1) \<Rightarrow>
             if acceptRanges ri then
               (case rename filePath (tmpPath filePath) w1 of
                  (True, w2) \<Rightarrow>
                    (existingFinalSize v,
                     v\<lparr>remoteInfo := Some ri, existingTmpSize := existingFinalSize v,
                       existingFinalSize := 0\<rparr>, w2)
                | (False, w2) \<Rightarrow> (0, v\<lparr>remoteInfo := Some ri\<rparr>, w2))
             else (0, v\<lparr>remoteInfo := Some ri\<rparr>, w1))
      else (0, v, w))"

text \<open>
  Lines 848-853 (and 832-837, the same steps): rename the partial file to the
  destination, copy it when the rename throws, then unlink the partial file;
  every error is swallowed.
\<close>

definition finalize :: "string \<Rightarrow> world \<Rightarrow> world" where
  "finalize filePath w =
     (let w1 = (case rename (tmpPath filePath) filePath w of
                  (True, w') \<Rightarrow> w'
                | (False, w') \<Rightarrow> snd (copyFile (tmpPath filePath) filePath w'))
      in snd (unlink (tmpPath filePath) w1))"

text \<open>
  The body of the \<open>try\<close> of one attempt (lines 716-854). The result is the
  outcome returned or the error thrown, with the variables and the world as the
  attempt leaves them. A stream that breaks by itself leaves what it delivered
  before in the partial file. The progress line, the timers and \<open>mkdir\<close> are
  left out.
\<close>

definition attempt ::
  "string \<Rightarrow> string \<Rightarrow> int \<Rightarrow> dl_vars \<Rightarrow> world \<Rightarrow> (error + outcome) \<times> dl_vars \<times> world" where
  "attempt url filePath sampleBytes v w =
     (case decideResumeOffset url filePath sampleBytes v w of
        (resumeOffset, v1, w1) \<Rightarrow>
          (case fetch \<lparr>http_method = ''GET'', req_url = url,
                       range_hdr =
                         (if sampleBytes > 0 then Range 0 (Some (nat (max 0 (sampleBytes - 1))))
                          else if resumeOffset > 0 then Range resumeOffset None
                          else NoRange)\<rparr> w1 of
             (Rejected, w2) \<Rightarrow> (Inl FetchFailed, v1, w2)
           | (Response res, w2) \<Rightarrow>
               if \<not> ok res \<or> \<not> has_body res then (Inl (HttpError (status res)), v1, w2)
               else if resumeOffset > 0 \<and> status res \<noteq> 206 then
                 (Inl RangeNotHonored, v1\<lparr>existingTmpSize := 0\<rparr>,
                  snd (unlink (tmpPath filePath) w2))
               else
                 (let w3 = createWriteStream (tmpPath filePath)
                             (\<not> (sampleBytes > 0 \<or> resumeOffset = 0)) w2 in
                  if sampleBytes > 0 then
                    (case pipeline_limited (flushed_at_stop w3)
                            \<lparr>limit = sampleBytes, seen = 0, hit = False\<rparr> (chunks res) of
                       (out, byteLimitReached) \<Rightarrow>
                         (let w4 = write_bytes (tmpPath filePath) out w3 in
                          if byteLimitReached then (Inr Downloaded, v1, finalize filePath w4)
                          else if stream_error res then (Inl PipeError, v1, w4)
                          else (Inr Downloaded, v1, finalize filePath w4)))
                  else
                    (let w4 = write_bytes (tmpPath filePath) (concat (chunks res)) w3 in
                     if stream_error res then (Inl PipeError, v1, w4)
                     else (Inr Downloaded, v1, finalize filePath w4)))))"

text \<open>
  The loop \<open>for (attempt = 1; attempt <= maxRetries; attempt++)\<close> with its
  \<open>catch\<close>: an error leads to the next attempt while \<open>attempt < maxRetries\<close> and
  is thrown otherwise. A loop that never runs leaves the function without a
  return value (\<open>Undefined\<close>). The back-off sleep takes time only.
\<close>

function attempts ::
  "string \<Rightarrow> string \<Rightarrow> int \<Rightarrow> nat \<Rightarrow> nat \<Rightarrow> dl_vars \<Rightarrow> world \<Rightarrow> (error + outcome) \<times> world" where
  "attempts url filePath sampleBytes maxRetries n v w =
     (if n \<le> maxRetries then
        (case attempt url filePath sampleBytes v w of
           (Inr out, v1, w1) \<Rightarrow> (Inr out, w1)
         | (Inl err, v1, w1) \<Rightarrow>
             if n < maxRetries then attempts url filePath sampleBytes maxRetries (n + 1) v1 w1
             else (Inl err, w1))
      else (Inr Undefined, w))"
  by pat_completeness auto
termination
  by (relation "measure (\<lambda>(url, filePath, sampleBytes, maxRetries, n, v, w). maxRetries + 1 - n)")
     auto

declare attempts.simps [simp del]

definition downloadToFile ::
  "string \<Rightarrow> string \<Rightarrow> nat \<Rightarrow> int \<Rightarrow> world \<Rightarrow> (error + outcome) \<times> world" where
  "downloadToFile url filePath maxRetries sampleBytes w =
     (let final0 = (case statSync w filePath of None \<Rightarrow> 0 | Some n \<Rightarrow> n) in
      if final0 > 0 \<and> sampleBytes > 0 then (Inr Exists, w)
      else
        let tmp0 = (case statSync w (tmpPath filePath) of None \<Rightarrow> 0 | Some n \<Rightarrow> n) in
        case (if sampleBytes = 0 \<and> final0 > 0
              then (case getRemoteSizeAndRanges url w of (ri, w') \<Rightarrow> (Some ri, w'))
              else (None, w)) of
          (ri, w1) \<Rightarrow>
            if (case ri of
                  None \<Rightarrow> False
                | Some r \<Rightarrow>
                    (case remote_size r of None \<Rightarrow> False | Some sz \<Rightarrow> sz \<noteq> 0 \<and> int final0 \<ge> sz))
            then (Inr Exists, w1)
            else attempts url filePath sampleBytes maxRetries 1
                   \<lparr>existingFinalSize = final0, existingTmpSize = tmp0, remoteInfo = ri\<rparr> w1)"

text \<open>The requests the engine sends, by name.\<close>

definition HEAD_req :: "string \<Rightarrow> request" where
  "HEAD_req url = \<lparr>http_method = ''HEAD'', req_url = url, range_hdr = NoRange\<rparr>"

definition probe_GET :: "string \<Rightarrow> request" where
  "probe_GET url = \<lparr>http_method = ''GET'', req_url = url, range_hdr = Range 0 (Some 0)\<rparr>"

definition resume_GET :: "string \<Rightarrow> nat \<Rightarrow> request" where
  "resume_GET url n = \<lparr>http_method = ''GET'', req_url = url, range_hdr = Range n None\<rparr>"

definition sample_GET :: "string \<Rightarrow> int \<Rightarrow> request" where
  "sample_GET url L =
     \<lparr>http_method = ''GET'', req_url = url, range_hdr = Range 0 (Some (nat (L - 1)))\<rparr>"

text \<open>The HEAD of the probe is answered with a 2xx status.\<close>

definition head_answers :: "world \<Rightarrow> bool" where
  "head_answers w = (case net w of Response h # rs \<Rightarrow> ok h | _ \<Rightarrow> False)"


section \<open>JSON values\<close>

text \<open>
  What \<open>JSON.parse\<close> returns. A JavaScript value that may be \<open>undefined\<close> is a
  \<open>json option\<close>, \<open>None\<close> being \<open>undefined\<close>. Numbers are integers. An object
  is the list of its members in insertion order, each name once.
\<close>

datatype json =
    JNull
  | JBool bool
  | JNum int
  | JStr string
  | JArr "json list"
  | JObj "(string \<times> json) list"

text \<open>Truthiness, as \<open>if (x)\<close>, \<open>!x\<close>, \<open>x && y\<close> and \<open>x || y\<close> read a value.\<close>

fun truthy :: "json option \<Rightarrow> bool" where
  "truthy None = False"
| "truthy (Some JNull) = False"
| "truthy (Some (JBool b)) = b"
| "truthy (Some (JNum n)) = (n \<noteq> 0)"
| "truthy (Some (JStr s)) = (s \<noteq> [])"
| "truthy (Some (JArr xs)) = True"
| "truthy (Some (JObj kvs)) = True"

text \<open>
  \<open>x.k\<close> for a value \<open>x\<close> that is neither \<open>null\<close> nor \<open>undefined\<close>: the
  member of an object; \<open>undefined\<close> for every other value (array elements and the
  built-in properties of strings and arrays are not among the names the program
  reads).
\<close>

fun jprop :: "json \<Rightarrow> string \<Rightarrow> json option" where
  "jprop (JObj kvs) k = map_of kvs k"
| "jprop j k = None"

text \<open>\<open>x?.k\<close>.\<close>

fun opt_prop :: "json option \<Rightarrow> string \<Rightarrow> json option" where
  "opt_prop None k = None"
| "opt_prop (Some JNull) k = None"
| "opt_prop (Some j) k = jprop j k"

text \<open>\<open>obj[k] = v\<close> on an object: an existing member keeps its place.\<close>

fun obj_set :: "(string \<times> json) list \<Rightarrow> string \<Rightarrow> json \<Rightarrow> (string \<times> json) list" where
  "obj_set [] k v = [(k, v)]"
| "obj_set ((k', v') # kvs) k v = (if k' = k then (k, v) # kvs else (k', v') # obj_set kvs k v)"

fun join_with :: "string \<Rightarrow> string list \<Rightarrow> string" where
  "join_with sep [] = []"
| "join_with sep [x] = x"
| "join_with sep (x # y # ys) = x @ sep @ join_with sep (y # ys)"

function nat_to_string :: "nat \<Rightarrow> string" where
  "nat_to_string n =
     (if n < 10 then [char_of (48 + n)]
      else nat_to_string (n div 10) @ [char_of (48 + n mod 10)])"
  by pat_completeness auto
termination
  by (relation "measure (\<lambda>n. n)") auto

declare nat_to_string.simps [simp del]

definition int_to_string :: "int \<Rightarrow> string" where
  "int_to_string i = (if i < 0 then ''-'' @ nat_to_string (nat (- i)) else nat_to_string (nat i))"

text \<open>\<open>String(x)\<close>, as a template literal or a header value converts a value.\<close>

fun js_string :: "json \<Rightarrow> string" where
  "js_string JNull = ''null''"
| "js_string (JBool b) = (if b then ''true'' else ''false'')"
| "js_string (JNum n) = int_to_string n"
| "js_string (JStr s) = s"
| "js_string (JArr xs) = join_with '','' (map (\<lambda>x. if x = JNull then [] else js_string x) xs)"
| "js_string (JObj kvs) = ''[object Object]''"


section \<open>The environment and the state of session acquisition\<close>

definition PLACEHOLDER :: string where
  "PLACEHOLDER = ''PUT_YOUR_COOKIE_HERE''"

text \<open>
  Lines 54-60: the module constant \<open>COOKIE\<close> from the environment variables
  \<open>MK_COOKIE\<close> and \<open>MK_COOKIE_FILE\<close> and the files on disk.
\<close>

definition COOKIE_of :: "string option \<Rightarrow> string option \<Rightarrow> (string \<Rightarrow> string option) \<Rightarrow> string" where
  "COOKIE_of mk_cookie mk_cookie_file fs =
     (case (case mk_cookie of
              None \<Rightarrow> None
            | Some c \<Rightarrow> if c \<noteq> [] \<and> trim c \<noteq> [] then Some (trim c) else None) of
        Some c \<Rightarrow> c
      | None \<Rightarrow>
          (case (case mk_cookie_file of
                   None \<Rightarrow> None
                 | Some f \<Rightarrow> if f = [] then None else map_option trim (fs f)) of
             Some c \<Rightarrow> c
           | None \<Rightarrow> PLACEHOLDER))"

text \<open>
  What the run does not change: the constant \<open>COOKIE\<close>; \<open>JSON.parse\<close>
  (\<open>None\<close>: it throws) and \<open>JSON.stringify\<close>; the profile endpoint as
  \<open>fetchCoreData\<close> sees it, from the Cookie header sent (\<open>None\<close>: no such
  header) to the parsed body (\<open>None\<close>: the request fails, the status is not 2xx
  or the body is not JSON); and the time stamp \<open>new Date().toISOString()\<close>.
\<close>

record env =
  COOKIE :: string
  JSON_parse :: "string \<Rightarrow> json option"
  JSON_stringify :: "json \<Rightarrow> string"
  core_data :: "string option \<Rightarrow> json option"
  now_iso :: string

record raw_request =
  rq_method :: string
  rq_url :: string
  rq_cookie :: "string option"
  rq_csrf :: "json option"
  rq_form :: "(string \<times> string) list"

text \<open>
  What \<open>rawRequest\<close> resolves to: \<open>set_cookie\<close> is
  \<open>res.headers['set-cookie']\<close>.
\<close>

record raw_response =
  r_status :: nat
  set_cookie :: "string list option"
  r_body :: string

datatype raw_result = RawRejected | RawResponse raw_response

text \<open>
  \<open>ACTIVE_COOKIE\<close> (\<open>None\<close>: \<open>null\<close>); the files; the paths read as session
  files so far; the results the login endpoints give to the coming requests, and
  the requests sent to them.
\<close>

record sstate =
  ACTIVE_COOKIE :: "json option"
  sfiles :: "string \<Rightarrow> string option"
  reads :: "string list"
  raw_net :: "raw_result list"
  raw_sent :: "raw_request list"

definition rawRequest :: "raw_request \<Rightarrow> sstate \<Rightarrow> raw_result \<times> sstate" where
  "rawRequest rq s =
     (case raw_net s of
        [] \<Rightarrow> (RawRejected, s\<lparr>raw_sent := raw_sent s @ [rq]\<rparr>)
      | r # rs \<Rightarrow> (r, s\<lparr>raw_net := rs, raw_sent := raw_sent s @ [rq]\<rparr>))"


section \<open>The session file\<close>

definition readSessionFile :: "env \<Rightarrow> string \<Rightarrow> sstate \<Rightarrow> json option \<times> sstate" where
  "readSessionFile e file s =
     (let s1 = s\<lparr>reads := reads s @ [file]\<rparr> in
      case sfiles s file of
        None \<Rightarrow> (None, s1)
      | Some txt \<Rightarrow>
          (case JSON_parse e txt of
             None \<Rightarrow> (None, s1)
           | Some data \<Rightarrow>
               if truthy (Some data) \<and> truthy (jprop data ''users'') then (Some data, s1)
               else if truthy (Some data) \<and>
                       (case jprop data ''cookie'' of Some (JStr c) \<Rightarrow> True | _ \<Rightarrow> False)
               then
                 (Some (JObj
                    [(''users'',
                      JObj [(''default'',
                             JObj [(''cookie'', the (jprop data ''cookie'')),
                                   (''updated'',
                                    (if truthy (jprop data ''updated'')
                                     then the (jprop data ''updated'')
                                     else JStr (now_iso e)))])]),
                     (''lastUsed'', JStr ''default'')]), s1)
               else (None, s1)))"

text \<open>
  \<open>writeSessionFileMulti\<close>. The module is strict code, so \<open>data.users[key] = ...\<close>
  throws a TypeError when \<open>users\<close> is a number, a string or \<open>true\<close>: the result
  is \<open>False\<close> then. On an array the assignment adds a named property that JSON does
  not show (the key, a lower-cased e-mail address, is no array index). The write
  itself succeeds; its error would be swallowed.
\<close>

definition writeSessionFileMulti ::
  "env \<Rightarrow> string \<Rightarrow> string option \<Rightarrow> json option \<Rightarrow> json option \<Rightarrow> sstate \<Rightarrow> bool \<times> sstate" where
  "writeSessionFileMulti e file email cookie existing s =
     (let key = toLowerCase (trim (case email of
                                     None \<Rightarrow> ''default''
                                   | Some m \<Rightarrow> if m = [] then ''default'' else m));
          data = (if truthy existing \<and> truthy (opt_prop existing ''users'') then the existing
                  else JObj [(''users'', JObj []), (''lastUsed'', JStr key)]);
          entry = JObj [(''cookie'', (case cookie of None \<Rightarrow> JNull | Some c \<Rightarrow> c)),
                        (''updated'', JStr (now_iso e))]
      in case data of
           JObj kvs \<Rightarrow>
             (case map_of kvs ''users'' of
                Some (JObj us) \<Rightarrow>
                  (True, s\<lparr>sfiles := (sfiles s)(file \<mapsto>
                     JSON_stringify e
                       (JObj (obj_set (obj_set kvs ''users'' (JObj (obj_set us key entry)))
                                ''lastUsed'' (JStr key))))\<rparr>)
              | Some (JArr us) \<Rightarrow>
                  (True, s\<lparr>sfiles := (sfiles s)(file \<mapsto>
                     JSON_stringify e (JObj (obj_set kvs ''lastUsed'' (JStr key))))\<rparr>)
              | _ \<Rightarrow> (False, s))
         | _ \<Rightarrow> (False, s))"


section \<open>SimpleCookieStore\<close>

text \<open>The \<open>Map\<close> of the store, in insertion order.\<close>

type_synonym cookie_store = "(string \<times> string) list"

fun store_set :: "cookie_store \<Rightarrow> string \<Rightarrow> string \<Rightarrow> cookie_store" where
  "store_set [] k v = [(k, v)]"
| "store_set ((k', v') # kvs) k v = (if k' = k then (k, v) # kvs else (k', v') # store_set kvs k v)"

definition setCookieLine :: "cookie_store \<Rightarrow> string \<Rightarrow> cookie_store" where
  "setCookieLine store line =
     (if line = [] then store
      else
        let seg = takeWhile (\<lambda>c. c \<noteq> CHR '';'') line in
        if CHR ''='' \<notin> set seg then store
        else
          let k = trim (takeWhile (\<lambda>c. c \<noteq> CHR ''='') seg);
              v = trim (tl (dropWhile (\<lambda>c. c \<noteq> CHR ''='') seg))
          in if k \<noteq> [] then store_set store k v else store)"

definition applySetCookie :: "cookie_store \<Rightarrow> string list option \<Rightarrow> cookie_store" where
  "applySetCookie store arr = foldl setCookieLine store (case arr of None \<Rightarrow> [] | Some ls \<Rightarrow> ls)"

definition store_get :: "cookie_store \<Rightarrow> string \<Rightarrow> string option" where
  "store_get store name = map_of store name"

definition headerString :: "cookie_store \<Rightarrow> string" where
  "headerString store = join_with ''; '' (map (\<lambda>(k, v). k @ ''='' @ v) store)"

text \<open>\<open>store.get(name) || null\<close> as a value: an empty string is falsy.\<close>

definition store_get_or_null :: "cookie_store \<Rightarrow> string \<Rightarrow> json option" where
  "store_get_or_null store name =
     (case store_get store name of
        None \<Rightarrow> None
      | Some v \<Rightarrow> if v = [] then None else Some (JStr v))"


section \<open>loginWithCredentialsInline\<close>

text \<open>
  The errors the login throws, by their message: \<open>Email & password required for
  login\<close>; a rejected request; \<open>Cannot obtain CSRF token\<close>; the TypeError of
  \<open>csrf.slice\<close> on a token that is neither a string nor an array;
  \<open>check-active-user invalid JSON status=\<close>; \<open>check-active-user failed
  status=... message=...\<close>; \<open>Unsupported flow (expected get-pass, got ...)\<close>;
  \<open>login-authentication invalid JSON status=\<close>; \<open>login-authentication failed
  message=\<close>; \<open>Session cookie missing after login\<close>.
\<close>

datatype login_error =
    CredentialsRequired
  | RequestRejected
  | CannotObtainCsrf
  | CsrfTypeError
  | CheckInvalidJSON nat
  | CheckFailed "json option" "json option"
  | UnsupportedFlow "json option"
  | LoginInvalidJSON nat
  | LoginFailed "json option"
  | SessionCookieMissing

definition ORIGIN :: string where
  "ORIGIN = ''https://maktabkhooneh.org''"

definition str_truthy :: "string option \<Rightarrow> bool" where
  "str_truthy x = (case x of None \<Rightarrow> False | Some s \<Rightarrow> s \<noteq> [])"

text \<open>
  The two POST requests: the accumulated cookies in the Cookie header, the token
  in \<open>X-CSRFToken\<close>, and the form fields.
\<close>

definition check_request :: "string \<Rightarrow> cookie_store \<Rightarrow> json \<Rightarrow> raw_request" where
  "check_request email store csrf =
     \<lparr>rq_method = ''POST'', rq_url = ORIGIN @ ''/api/v1/auth/check-active-user'',
      rq_cookie = Some (headerString store), rq_csrf = Some csrf,
      rq_form = [(''csrfmiddlewaretoken'', js_string csrf), (''tessera'', email),
                 (''g-recaptcha-response'', [])]\<rparr>"

definition submit_request :: "string \<Rightarrow> string \<Rightarrow> cookie_store \<Rightarrow> json \<Rightarrow> raw_request" where
  "submit_request email password store csrf =
     \<lparr>rq_method = ''POST'', rq_url = ORIGIN @ ''/api/v1/auth/login-authentication'',
      rq_cookie = Some (headerString store), rq_csrf = Some csrf,
      rq_form = [(''csrfmiddlewaretoken'', js_string csrf), (''tessera'', email),
                 (''hidden_username'', email), (''password'', password),
                 (''g-recaptcha-response'', [])]\<rparr>"

definition page_request :: raw_request where
  "page_request =
     \<lparr>rq_method = ''GET'', rq_url = ORIGIN @ ''/accounts/login/'',
      rq_cookie = None, rq_csrf = None, rq_form = []\<rparr>"

definition core_request :: raw_request where
  "core_request =
     \<lparr>rq_method = ''GET'', rq_url = ORIGIN @ ''/api/v1/general/core-data/?profile=1'',
      rq_cookie = None, rq_csrf = None, rq_form = []\<rparr>"

text \<open>
  Steps 0 and 0b (lines 469-491): the login page, the fallback to the profile
  endpoint, and the token found.
\<close>

definition login_csrf :: "env \<Rightarrow> sstate \<Rightarrow> (login_error + cookie_store \<times> json) \<times> sstate" where
  "login_csrf e s =
     (case rawRequest page_request s of
        (RawRejected, s1) \<Rightarrow> (Inl RequestRejected, s1)
      | (RawResponse r, s1) \<Rightarrow>
          (let store = applySetCookie [] (set_cookie r);
               csrf = store_get_or_null store ''csrftoken''
           in case (if \<not> truthy csrf then
                      (case rawRequest core_request s1 of
                         (RawRejected, s2) \<Rightarrow> (None, store, csrf, s2)
                       | (RawResponse r2, s2) \<Rightarrow>
                           (let store2 = applySetCookie store (set_cookie r2);
                                csrf2 = (case JSON_parse e (r_body r2) of
                                           None \<Rightarrow> csrf
                                         | Some j2 \<Rightarrow>
                                             (let c = opt_prop (opt_prop (Some j2) ''auth'') ''csrf''
                                              in if truthy c then c else None));
                                csrf3 = (if \<not> truthy csrf2
                                         then store_get_or_null store2 ''csrftoken'' else csrf2)
                            in (Some (), store2, csrf3, s2)))
                    else (Some (), store, csrf, s1)) of
                (None, store', csrf', s') \<Rightarrow> (Inl RequestRejected, s')
              | (Some u, store', csrf', s') \<Rightarrow>
                  (case csrf' of
                     None \<Rightarrow> (Inl CannotObtainCsrf, s')
                   | Some tok \<Rightarrow>
                       if \<not> truthy csrf' then (Inl CannotObtainCsrf, s')
                       else (case tok of
                               JStr t \<Rightarrow> (Inr (store', tok), s')
                             | JArr ts \<Rightarrow> (Inr (store', tok), s')
                             | _ \<Rightarrow> (Inl CsrfTypeError, s')))))"

text \<open>Step 1 (lines 506-535): \<open>check-active-user\<close>.\<close>

definition login_check ::
  "env \<Rightarrow> string \<Rightarrow> cookie_store \<Rightarrow> json \<Rightarrow> sstate \<Rightarrow> (login_error + cookie_store) \<times> sstate" where
  "login_check e email store csrf s =
     (case rawRequest (check_request email store csrf) s of
        (RawRejected, s1) \<Rightarrow> (Inl RequestRejected, s1)
      | (RawResponse r, s1) \<Rightarrow>
          (let store1 = applySetCookie store (set_cookie r);
               jCheck = JSON_parse e (r_body r)
           in if \<not> truthy jCheck then (Inl (CheckInvalidJSON (r_status r)), s1)
              else if jprop (the jCheck) ''status'' \<noteq> Some (JStr ''success'')
              then (Inl (CheckFailed (jprop (the jCheck) ''status'')
                                     (jprop (the jCheck) ''message'')), s1)
              else if jprop (the jCheck) ''message'' \<noteq> Some (JStr ''get-pass'')
              then (Inl (UnsupportedFlow (jprop (the jCheck) ''message'')), s1)
              else (Inr store1, s1)))"

text \<open>
  Step 2 and the final cookie (lines 537-569): \<open>login-authentication\<close>, then
  \<open>ACTIVE_COOKIE\<close> from the two cookies.
\<close>

definition login_submit ::
  "env \<Rightarrow> string \<Rightarrow> string \<Rightarrow> cookie_store \<Rightarrow> json \<Rightarrow> sstate \<Rightarrow> (login_error + unit) \<times> sstate" where
  "login_submit e email password store csrf s =
     (case rawRequest (submit_request email password store csrf) s of
        (RawRejected, s1) \<Rightarrow> (Inl RequestRejected, s1)
      | (RawResponse r, s1) \<Rightarrow>
          (let store1 = applySetCookie store (set_cookie r);
               jLogin = JSON_parse e (r_body r)
           in if \<not> truthy jLogin then (Inl (LoginInvalidJSON (r_status r)), s1)
              else if jprop (the jLogin) ''status'' \<noteq> Some (JStr ''success'')
              then (Inl (LoginFailed (jprop (the jLogin) ''message'')), s1)
              else
                (let sessionid = store_get store1 ''sessionid'';
                     csrftoken = (case store_get_or_null store1 ''csrftoken'' of
                                    None \<Rightarrow> csrf
                                  | Some t \<Rightarrow> t)
                 in if \<not> str_truthy sessionid then (Inl SessionCookieMissing, s1)
                    else (Inr (),
                          s1\<lparr>ACTIVE_COOKIE :=
                               Some (JStr (''csrftoken='' @ js_string csrftoken @
                                           ''; sessionid='' @ the sessionid))\<rparr>))))"

definition loginWithCredentialsInline ::
  "env \<Rightarrow> string option \<Rightarrow> string option \<Rightarrow> sstate \<Rightarrow> (login_error + unit) \<times> sstate" where
  "loginWithCredentialsInline e email password s =
     (if \<not> str_truthy email \<or> \<not> str_truthy password then (Inl CredentialsRequired, s)
      else
        case login_csrf e s of
          (Inl err, s1) \<Rightarrow> (Inl err, s1)
        | (Inr (store, csrf), s1) \<Rightarrow>
            (case login_check e (the email) store csrf s1 of
               (Inl err, s2) \<Rightarrow> (Inl err, s2)
             | (Inr store1, s2) \<Rightarrow> login_submit e (the email) (the password) store1 csrf s2))"


section \<open>prepareSession\<close>

text \<open>
  The Cookie header of \<open>commonHeaders\<close>: \<open>ACTIVE_COOKIE || COOKIE\<close>, left out
  when it is falsy or the placeholder.
\<close>

definition cookie_header :: "env \<Rightarrow> json option \<Rightarrow> string option" where
  "cookie_header e ac =
     (let ck = (if truthy ac then the ac else JStr (COOKIE e))
      in if truthy (Some ck) \<and> ck \<noteq> JStr PLACEHOLDER then Some (js_string ck) else None)"

text \<open>The helper \<open>verify\<close> (lines 574-590): the profile, or \<open>null\<close>.\<close>

definition verify :: "env \<Rightarrow> sstate \<Rightarrow> json option" where
  "verify e s =
     (if \<not> truthy (ACTIVE_COOKIE s) then None
      else
        case core_data e (cookie_header e (ACTIVE_COOKIE s)) of
          None \<Rightarrow> None
        | Some core \<Rightarrow>
            if truthy (opt_prop (opt_prop (opt_prop (Some core) ''auth'') ''details'')
                         ''is_authenticated'')
            then Some core else None)"

text \<open>Step 2a (lines 609-623); \<open>Some\<close> is the early return.\<close>

definition try_stored_user ::
  "env \<Rightarrow> json \<Rightarrow> string \<Rightarrow> sstate \<Rightarrow> (json \<times> string) option \<times> sstate" where
  "try_stored_user e sessionData desiredUserKey s =
     (let entry = opt_prop (jprop sessionData ''users'') desiredUserKey in
      if truthy entry \<and> truthy (opt_prop entry ''cookie'') then
        (let s1 = s\<lparr>ACTIVE_COOKIE := opt_prop entry ''cookie''\<rparr> in
         case verify e s1 of
           Some core \<Rightarrow> (Some (core, ''stored-user''), s1)
         | None \<Rightarrow> (None, s1\<lparr>ACTIVE_COOKIE := None\<rparr>))
      else (None, s))"

text \<open>Step 2b (lines 624-634).\<close>

definition try_last_used ::
  "env \<Rightarrow> json \<Rightarrow> sstate \<Rightarrow> (json \<times> string) option \<times> sstate" where
  "try_last_used e sessionData s =
     (let key = jprop sessionData ''lastUsed'';
          entry = (if truthy key then opt_prop (jprop sessionData ''users'') (js_string (the key))
                   else None)
      in if truthy key \<and> truthy entry \<and> truthy (opt_prop entry ''cookie'') then
           (let s1 = s\<lparr>ACTIVE_COOKIE := opt_prop entry ''cookie''\<rparr> in
            case verify e s1 of
              Some core \<Rightarrow> (Some (core, ''stored-last''), s1)
            | None \<Rightarrow> (None, s1))
         else (None, s))"

text \<open>Step 3 (lines 636-650), with its \<open>try\<close> and \<open>catch\<close>.\<close>

definition try_login ::
  "env \<Rightarrow> string option \<Rightarrow> string option \<Rightarrow> string option \<Rightarrow> json option \<Rightarrow> sstate \<Rightarrow>
   (json \<times> string) option \<times> sstate" where
  "try_login e userEmail userPassword sessionFile sessionData s =
     (case loginWithCredentialsInline e userEmail userPassword s of
        (Inl err, s1) \<Rightarrow> (None, s1)
      | (Inr u, s1) \<Rightarrow>
          (case (if truthy (ACTIVE_COOKIE s1) \<and> str_truthy sessionFile
                 then writeSessionFileMulti e (the sessionFile) userEmail (ACTIVE_COOKIE s1)
                        sessionData s1
                 else (True, s1)) of
             (False, s2) \<Rightarrow> (None, s2)
           | (True, s2) \<Rightarrow>
               (case verify e s2 of
                  Some core \<Rightarrow> (Some (core, ''fresh-login''), s2)
                | None \<Rightarrow> (None, s2))))"

text \<open>
  \<open>prepareSession\<close>: the pair \<open>{core, source}\<close> (\<open>core = None\<close>: \<open>null\<close>) and
  the state afterwards. The log lines are left out.
\<close>

definition prepareSession ::
  "env \<Rightarrow> string option \<Rightarrow> string option \<Rightarrow> string option \<Rightarrow> bool \<Rightarrow> sstate \<Rightarrow>
   (json option \<times> string) \<times> sstate" where
  "prepareSession e userEmail userPassword sessionFile forceLogin s =
     (let s0 = (if COOKIE e \<noteq> [] \<and> COOKIE e \<noteq> PLACEHOLDER
                then s\<lparr>ACTIVE_COOKIE := Some (JStr (COOKIE e))\<rparr> else s);
          env_core = (if COOKIE e \<noteq> [] \<and> COOKIE e \<noteq> PLACEHOLDER then verify e s0 else None)
      in case env_core of
           Some core \<Rightarrow> ((Some core, ''env''), s0)
         | None \<Rightarrow>
             (case (if str_truthy sessionFile then readSessionFile e (the sessionFile) s0
                    else (None, s0)) of
                (sessionData, s1) \<Rightarrow>
                  (let desiredUserKey =
                         (if str_truthy userEmail then Some (toLowerCase (trim (the userEmail)))
                          else None)
                   in case (if truthy sessionData \<and> str_truthy desiredUserKey \<and> \<not> forceLogin
                            then try_stored_user e (the sessionData) (the desiredUserKey) s1
                            else (None, s1)) of
                        (Some (core, src), s2) \<Rightarrow> ((Some core, src), s2)
                      | (None, s2) \<Rightarrow>
                          (case (if truthy sessionData \<and> \<not> str_truthy desiredUserKey
                                 then try_last_used e (the sessionData) s2
                                 else (None, s2)) of
                             (Some (core, src), s3) \<Rightarrow> ((Some core, src), s3)
                           | (None, s3) \<Rightarrow>
                               (case (if str_truthy desiredUserKey \<and> str_truthy userPassword \<and>
                                         (\<not> truthy (ACTIVE_COOKIE s3) \<or> forceLogin)
                                      then try_login e userEmail userPassword sessionFile
                                             sessionData s3
                                      else (None, s3)) of
                                  (Some (core, src), s4) \<Rightarrow> ((Some core, src), s4)
                                | (None, s4) \<Rightarrow> ((None, ''none''), s4))))))"


section \<open>Concrete worlds\<close>

text \<open>A plain response: status, headers, body chunks, and whether the stream breaks.\<close>

definition resp :: "nat \<Rightarrow> (string \<Rightarrow> string option) \<Rightarrow> string list \<Rightarrow> bool \<Rightarrow> fetch_result" where
  "resp st hs cs broken =
     Response \<lparr>status = st, headers = hs, has_body = True, chunks = cs, stream_error = broken\<rparr>"

definition mk_world :: "(string \<Rightarrow> string option) \<Rightarrow> fetch_result list \<Rightarrow> bool \<Rightarrow> world" where
  "mk_world fs rs locked =
     \<lparr>files = fs, net = rs, sent = [], rename_faults = (if locked then [True] else []),
      copy_fails = locked, unlink_fails = False, flushed_at_stop = 0\<rparr>"

text \<open>
  An empty directory, the eight-byte resource \<open>abcdefgh\<close> and a disk that has
  written nothing yet when the limit stops the transfer. The first server honours
  the range and sends \<open>abcd\<close> in one chunk; the second ignores it and sends the
  whole resource in three chunks.
\<close>

definition w_sample_honoured :: world where
  "w_sample_honoured = mk_world Map.empty [resp 206 Map.empty [''abcd''] False] False"

definition w_sample_ignored :: world where
  "w_sample_ignored =
     mk_world Map.empty [resp 200 Map.empty [''abc'', ''def'', ''gh''] False] False"

text \<open>
  A complete three-byte file; the server refuses HEAD (405) and answers the
  one-byte probe with 206 and \<open>Content-Range: bytes 0-0/3\<close>.
\<close>

definition w_head_refused :: world where
  "w_head_refused =
     mk_world [''f'' \<mapsto> ''abc'']
       [resp 405 Map.empty [] False,
        resp 206 [''content-range'' \<mapsto> ''bytes 0-0/3''] [''a''] False] False"

text \<open>The same file; the server answers HEAD with \<open>Content-Length: 3\<close>.\<close>

definition w_head_ok :: world where
  "w_head_ok =
     mk_world [''f'' \<mapsto> ''abc''] [resp 200 [''content-length'' \<mapsto> ''3''] [] False] False"

text \<open>
  The resource is \<open>abcdef\<close> and a two-byte partial file is on disk. The first
  resuming response delivers \<open>cd\<close> and then breaks; the second one delivers the
  rest from byte 2.
\<close>

definition w_broken_resume :: world where
  "w_broken_resume =
     mk_world [''f.part'' \<mapsto> ''ab'']
       [resp 206 Map.empty [''cd''] True, resp 206 Map.empty [''cdef''] False] False"

text \<open>A two-byte partial file and a server that ignores Range: 200, whole body.\<close>

definition w_range_ignored :: world where
  "w_range_ignored =
     mk_world [''f.part'' \<mapsto> ''ab''] [resp 200 Map.empty [''abcdef''] False] False"

text \<open>A two-byte partial file; the server answers 503 once, then honours the range.\<close>

definition w_unavailable :: world where
  "w_unavailable =
     mk_world [''f.part'' \<mapsto> ''ab'']
       [resp 503 Map.empty [] False, resp 206 Map.empty [''cdef''] False] False"

text \<open>
  The resource is \<open>0123456789\<close>; a three-byte destination file and a two-byte
  partial file are on disk. HEAD announces \<open>Accept-Ranges: bytes\<close>, the first GET
  ignores the range (200), the second honours it.
\<close>

definition w_both_files :: world where
  "w_both_files =
     mk_world [''f'' \<mapsto> ''012'', ''f.part'' \<mapsto> ''01'']
       [resp 200 [''content-length'' \<mapsto> ''10'', ''accept-ranges'' \<mapsto> ''bytes''] [] False,
        resp 200 Map.empty [''0123456789''] False,
        resp 206 Map.empty [''3456789''] False] False"




text \<open>
  A stand-in for \<open>JSON.parse\<close> that knows the texts of the examples, and one for
  \<open>JSON.stringify\<close> that writes a value without white space or escapes.
\<close>

definition profile :: "bool \<Rightarrow> json" where
  "profile authenticated =
     JObj [(''auth'', JObj [(''details'', JObj [(''is_authenticated'', JBool authenticated)])])]"

definition stored_record :: json where
  "stored_record =
     JObj [(''users'', JObj [(''a@b.c'', JObj [(''cookie'', JStr ''sessionid=s1'')])]),
           (''lastUsed'', JStr ''a@b.c'')]"

definition demo_parse :: "string \<Rightarrow> json option" where
  \<open>demo_parse txt =
     (if txt = ''{"status":"success","message":"get-pass"}''
      then Some (JObj [(''status'', JStr ''success''), (''message'', JStr ''get-pass'')])
      else if txt = ''{"status":"success","message":"get-otp"}''
      then Some (JObj [(''status'', JStr ''success''), (''message'', JStr ''get-otp'')])
      else if txt = ''{"status":"success"}''
      then Some (JObj [(''status'', JStr ''success'')])
      else if txt = ''{"cookie":"sessionid=old"}''
      then Some (JObj [(''cookie'', JStr ''sessionid=old'')])
      else if txt = ''{"users":{"a@b.c":{"cookie":"sessionid=s1"}},"lastUsed":"a@b.c"}''
      then Some stored_record
      else None)\<close>

fun demo_stringify :: "json \<Rightarrow> string" where
  \<open>demo_stringify JNull = ''null''\<close>
| \<open>demo_stringify (JBool b) = (if b then ''true'' else ''false'')\<close>
| \<open>demo_stringify (JNum n) = int_to_string n\<close>
| \<open>demo_stringify (JStr s) = ''"'' @ s @ ''"''\<close>
| \<open>demo_stringify (JArr xs) = ''['' @ join_with '','' (map demo_stringify xs) @ '']''\<close>
| \<open>demo_stringify (JObj kvs) =
     ''{'' @ join_with '','' (map (\<lambda>(k, v). ''"'' @ k @ ''":'' @ demo_stringify v) kvs) @ ''}''\<close>

text \<open>
  The profile endpoint knows two sessions, \<open>s1\<close> and \<open>s2\<close>; every other Cookie
  header gets an anonymous profile.
\<close>

definition demo_core_data :: "string option \<Rightarrow> json option" where
  "demo_core_data h =
     Some (profile (h = Some ''sessionid=s1'' \<or> h = Some ''csrftoken=tok; sessionid=s2''))"

definition demo_env :: "string \<Rightarrow> env" where
  "demo_env ck =
     \<lparr>COOKIE = ck, JSON_parse = demo_parse, JSON_stringify = demo_stringify,
      core_data = demo_core_data, now_iso = ''2025-01-01T00:00:00.000Z''\<rparr>"

definition raw :: "string list \<Rightarrow> string \<Rightarrow> raw_result" where
  "raw cookies txt = RawResponse \<lparr>r_status = 200, set_cookie = Some cookies, r_body = txt\<rparr>"

text \<open>
  The login endpoints as they answer a good login: the page sets the token
  cookie, the precheck says \<open>get-pass\<close>, the login sets the session cookie and one
  more.
\<close>

definition good_login :: "raw_result list" where
  \<open>good_login =
     [raw [''csrftoken=tok; Path=/''] ''<html>'',
      raw [] ''{"status":"success","message":"get-pass"}'',
      raw [''sessionid=s2; HttpOnly; Path=/'', ''lang=fa''] ''{"status":"success"}'']\<close>

definition s_start :: "(string \<Rightarrow> string option) \<Rightarrow> raw_result list \<Rightarrow> sstate" where
  "s_start fs rs = \<lparr>ACTIVE_COOKIE = None, sfiles = fs, reads = [], raw_net = rs, raw_sent = []\<rparr>"

text \<open>A session file with a valid entry for \<open>a@b.c\<close>, and one in the legacy shape.\<close>

definition stored_file :: "string \<Rightarrow> string option" where
  \<open>stored_file =
     [''session.json'' \<mapsto> ''{"users":{"a@b.c":{"cookie":"sessionid=s1"}},"lastUsed":"a@b.c"}'']\<close>

definition legacy_file :: "string \<Rightarrow> string option" where
  \<open>legacy_file = [''session.json'' \<mapsto> ''{"cookie":"sessionid=old"}'']\<close>

text \<open>The precheck answers with another flow; the login answers with an empty session cookie.\<close>

definition otp_login :: "raw_result list" where
  \<open>otp_login =
     [raw [''csrftoken=tok; Path=/''] ''<html>'',
      raw [] ''{"status":"success","message":"get-otp"}'']\<close>

definition empty_session_login :: "raw_result list" where
  \<open>empty_session_login =
     [raw [''csrftoken=tok; Path=/''] ''<html>'',
      raw [] ''{"status":"success","message":"get-pass"}'',
      raw [''sessionid=; Path=/''] ''{"status":"success"}'']\<close>



section \<open>Evaluation rules\<close>

lemmas js_eval = trim_def toLowerCase_def lower_char_def is_space_def is_digit_def digit_val_def
  digits_to_nat_def parseInt_def match_total_def

lemmas dl_eval = downloadToFile_def attempts.simps attempt_def decideResumeOffset_def
  getRemoteSizeAndRanges_def fetch_def ok_def statSync_def tmpPath_def createWriteStream_def
  write_bytes_def finalize_def rename_def copyFile_def unlink_def HEAD_req_def probe_GET_def
  next_rename_fails_def pipeline_limited_def resume_GET_def sample_GET_def head_answers_def
  resp_def mk_world_def Let_def

lemmas session_eval = prepareSession_def try_login_def try_last_used_def try_stored_user_def
  verify_def cookie_header_def loginWithCredentialsInline_def login_submit_def login_check_def
  login_csrf_def rawRequest_def readSessionFile_def writeSessionFileMulti_def applySetCookie_def
  setCookieLine_def store_get_def store_get_or_null_def headerString_def str_truthy_def
  check_request_def submit_request_def page_request_def core_request_def PLACEHOLDER_def
  demo_env_def demo_parse_def demo_core_data_def profile_def stored_record_def raw_def
  good_login_def s_start_def Let_def


section \<open>The byte limit\<close>




section \<open>File operations and the retry loop\<close>

lemma tmpPath_neq [simp]: "tmpPath p \<noteq> p" "p \<noteq> tmpPath p"
  by (simp_all add: tmpPath_def)

lemma finalize_destination:
  "files w (tmpPath p) = Some c \<Longrightarrow> \<not> (next_rename_fails w \<and> copy_fails w) \<Longrightarrow>
   files (finalize p w) p = Some c"
  by (auto simp: finalize_def rename_def copyFile_def unlink_def Let_def)


lemma finalize_sent [simp]: "sent (finalize p w) = sent w"
  by (auto simp: finalize_def rename_def copyFile_def unlink_def Let_def split: option.splits)



lemma attempts_retry:
  "n < maxRetries \<Longrightarrow> attempt url p sb v w = (Inl e, v1, w1) \<Longrightarrow>
   attempts url p sb maxRetries n v w = attempts url p sb maxRetries (n + 1) v1 w1"
  by (subst attempts.simps) simp

lemma attempts_give_up:
  "n = maxRetries \<Longrightarrow> attempt url p sb v w = (Inl e, v1, w1) \<Longrightarrow>
   attempts url p sb maxRetries n v w = (Inl e, w1)"
  by (subst attempts.simps) simp

text \<open>
  The probe touches no file. It sends a HEAD, and the single-byte GET as well when
  the HEAD is not answered with a 2xx status.
\<close>

lemma probe_effect:
  "getRemoteSizeAndRanges url w = (ri, w1) \<Longrightarrow>
   files w1 = files w \<and> rename_faults w1 = rename_faults w \<and> copy_fails w1 = copy_fails w \<and>
   unlink_fails w1 = unlink_fails w \<and>
   sent w1 = sent w @ (if head_answers w then [HEAD_req url] else [HEAD_req url, probe_GET url])"
  by (auto simp: getRemoteSizeAndRanges_def fetch_def HEAD_req_def probe_GET_def head_answers_def
      Let_def split: list.splits fetch_result.splits if_splits option.splits prod.splits)


lemma decide_offset_positive:
  "decideResumeOffset url p sb v w = (off, v1, w1) \<Longrightarrow> 0 < off \<Longrightarrow> \<not> sb > 0"
  by (auto simp: decideResumeOffset_def split: if_splits)

text \<open>
  An attempt that fails for another reason than the ignored range leaves a partial
  file in place: it is never deleted by a failure in mid-stream, a rejected
  request or an HTTP error.
\<close>

lemma rename_keeps_target:
  "rename a b w = (r, w1) \<Longrightarrow> files w b \<noteq> None \<Longrightarrow> files w1 b \<noteq> None"
  by (auto simp: rename_def split: option.splits if_splits)

lemma decide_keeps_partial:
  assumes "decideResumeOffset url p sb v w = (off, v1, w1)" "files w (tmpPath p) \<noteq> None"
  shows "files w1 (tmpPath p) \<noteq> None"
proof (cases "sb > 0 \<or> existingTmpSize v > 0 \<or> existingFinalSize v = 0")
  case True
  then show ?thesis using assms by (auto simp: decideResumeOffset_def split: if_splits)
next
  case False
  obtain ri wp where pr: "(case remoteInfo v of Some ri \<Rightarrow> (ri, w)
      | None \<Rightarrow> getRemoteSizeAndRanges url w) = (ri, wp)"
    by (cases "case remoteInfo v of Some ri \<Rightarrow> (ri, w) | None \<Rightarrow> getRemoteSizeAndRanges url w")
  have wp: "files wp = files w"
    using pr probe_effect [of url w ri wp] by (auto split: option.splits)
  obtain r wr where rn: "rename p (tmpPath p) wp = (r, wr)"
    by (cases "rename p (tmpPath p) wp")
  show ?thesis
    using False assms wp rename_keeps_target [OF rn]
    by (auto simp: decideResumeOffset_def pr rn split: if_splits bool.splits)
qed

lemma failure_keeps_partial:
  assumes a: "attempt url p sb v w = (Inl err, v1, w1)"
    and e: "err \<noteq> RangeNotHonored"
    and f: "files w (tmpPath p) \<noteq> None"
  shows "files w1 (tmpPath p) \<noteq> None"
proof -
  obtain off vd wd where d: "decideResumeOffset url p sb v w = (off, vd, wd)"
    by (cases "decideResumeOffset url p sb v w") auto
  note k = decide_keeps_partial [OF d f]
  let ?rq = "\<lparr>http_method = ''GET'', req_url = url,
              range_hdr = (if sb > 0 then Range 0 (Some (nat (max 0 (sb - 1))))
                           else if off > 0 then Range off None else NoRange)\<rparr>"
  obtain fr w2 where ft: "fetch ?rq wd = (fr, w2)"
    by (cases "fetch ?rq wd")
  have w2: "files w2 = files wd"
    using ft by (auto simp: fetch_def split: list.splits)
  show ?thesis
  proof (cases fr)
    case Rejected
    then show ?thesis using a k w2 by (simp add: attempt_def d ft)
  next
    case (Response res)
    show ?thesis
      using a e k w2 Response
      by (auto simp: attempt_def d ft Let_def write_bytes_def createWriteStream_def
          split: if_splits prod.splits)
  qed
qed



section \<open>Sampling\<close>

text \<open>
  C1 at a failing input. The limit is 4 and the resource is \<open>abcdefgh\<close>. The
  limiter does its part: it pushes exactly \<open>abcd\<close> and calls the limit callback,
  whether the server honours the range (one chunk \<open>abcd\<close>) or ignores it (chunks
  \<open>abc\<close>, \<open>def\<close>, \<open>gh\<close>). But the callback tears the pipeline down and the
  \<open>catch\<close> renames the partial file without waiting for the write stream: with a
  disk that has written nothing by then, the call returns \<open>Downloaded\<close> and the
  destination is an empty file, not the first four bytes.
\<close>

theorem sample_stop_loses_bytes:
  "run_limiter \<lparr>limit = 4, seen = 0, hit = False\<rparr> [''abcd''] = (''abcd'', True) \<and>
   run_limiter \<lparr>limit = 4, seen = 0, hit = False\<rparr> [''abc'', ''def'', ''gh''] = (''abcd'', True) \<and>
   fst (downloadToFile ''u'' ''f'' 3 4 w_sample_honoured) = Inr Downloaded \<and>
   files (snd (downloadToFile ''u'' ''f'' 3 4 w_sample_honoured)) ''f'' = Some [] \<and>
   files (snd (downloadToFile ''u'' ''f'' 3 4 w_sample_honoured)) ''f.part'' = None \<and>
   sent (snd (downloadToFile ''u'' ''f'' 3 4 w_sample_honoured)) = [sample_GET ''u'' 4] \<and>
   fst (downloadToFile ''u'' ''f'' 3 4 w_sample_ignored) = Inr Downloaded \<and>
   files (snd (downloadToFile ''u'' ''f'' 3 4 w_sample_ignored)) ''f'' = Some []"
  by (simp add: dl_eval transform_def w_sample_honoured_def w_sample_ignored_def)

text \<open>So the file written has not the \<open>min 4 8\<close> bytes.\<close>

theorem sample_stop_file_short:
  "files (snd (downloadToFile ''u'' ''f'' 3 4 w_sample_honoured)) ''f'' \<noteq> Some ''abcd''"
  using sample_stop_loses_bytes by simp


section \<open>The completed file\<close>

text \<open>
  C2, as the code has it. A full download (\<open>sampleBytes = 0\<close>) whose destination
  holds a non-empty file returns \<open>Exists\<close> when the probe reports a size that is
  known, not zero and not above the size of the file. No attempt is made and no
  file is touched. The requests of the call are the probe's own: a HEAD, and when
  the HEAD is rejected or not answered with a 2xx status, one GET for the single
  byte \<open>bytes=0-0\<close> after it.
\<close>

theorem exists_short_circuit:
  assumes "files w filePath = Some c" "c \<noteq> []"
    and "getRemoteSizeAndRanges url w = (ri, w1)"
    and "remote_size ri = Some sz" "sz \<noteq> 0" "sz \<le> int (length c)"
  shows "downloadToFile url filePath maxRetries 0 w = (Inr Exists, w1) \<and>
         files w1 = files w \<and>
         sent w1 = sent w @ (if head_answers w then [HEAD_req url]
                             else [HEAD_req url, probe_GET url])"
  using assms probe_effect [of url w ri w1]
  by (simp add: downloadToFile_def statSync_def Let_def)

theorem exists_short_circuit_witness:
  "downloadToFile ''u'' ''f'' 3 0 w_head_ok =
     (Inr Exists, w_head_ok\<lparr>net := [], sent := [HEAD_req ''u'']\<rparr>)"
proof -
  have f: "files w_head_ok ''f'' = Some ''abc''"
    by (simp add: w_head_ok_def mk_world_def)
  have p: "getRemoteSizeAndRanges ''u'' w_head_ok =
      (\<lparr>remote_size = Some 3, acceptRanges = False\<rparr>,
       w_head_ok\<lparr>net := [], sent := [HEAD_req ''u'']\<rparr>)"
    by (simp add: getRemoteSizeAndRanges_def w_head_ok_def mk_world_def resp_def fetch_def
        ok_def HEAD_req_def js_eval Let_def)
  show ?thesis
    using exists_short_circuit [OF f _ p, of 3 3] by simp
qed

text \<open>
  The claim as stated fails: with a server that refuses HEAD, the call returns
  \<open>Exists\<close> for the complete three-byte file after it has issued a GET request.
\<close>

theorem exists_issues_probe_GET:
  "fst (downloadToFile ''u'' ''f'' 3 0 w_head_refused) = Inr Exists \<and>
   files w_head_refused ''f'' = Some ''abc'' \<and>
   sent (snd (downloadToFile ''u'' ''f'' 3 0 w_head_refused)) =
     [HEAD_req ''u'',
      \<lparr>http_method = ''GET'', req_url = ''u'', range_hdr = Range 0 (Some 0)\<rparr>]"
  by (simp add: dl_eval js_eval w_head_refused_def)


section \<open>Resuming\<close>

text \<open>
  C3 at a failing input. The partial file holds \<open>ab\<close> of the resource
  \<open>abcdef\<close>. The first attempt resumes at byte 2, appends \<open>cd\<close> and fails in
  mid-stream: the partial file is kept and now holds four bytes, yet the offset the
  next attempt works out is still 2, the size read before the loop. The second
  attempt asks for \<open>bytes=2-\<close> again and appends the answer, so the finished
  file is \<open>abcdcdef\<close>, eight bytes for a resource of six.
\<close>

theorem stale_resume_offset:
  "(case attempt ''u'' ''f'' 0
           \<lparr>existingFinalSize = 0, existingTmpSize = 2, remoteInfo = None\<rparr> w_broken_resume of
      (r, v1, w1) \<Rightarrow>
        r = Inl PipeError \<and> files w1 ''f.part'' = Some ''abcd'' \<and>
        fst (decideResumeOffset ''u'' ''f'' 0 v1 w1) = 2) \<and>
   fst (downloadToFile ''u'' ''f'' 3 0 w_broken_resume) = Inr Downloaded \<and>
   files (snd (downloadToFile ''u'' ''f'' 3 0 w_broken_resume)) ''f'' = Some ''abcdcdef'' \<and>
   sent (snd (downloadToFile ''u'' ''f'' 3 0 w_broken_resume)) =
     [resume_GET ''u'' 2, resume_GET ''u'' 2]"
  by (simp add: dl_eval w_broken_resume_def)

text \<open>So the finished file is not the resource.\<close>

theorem stale_resume_offset_corrupts:
  "files (snd (downloadToFile ''u'' ''f'' 3 0 w_broken_resume)) ''f'' \<noteq> Some ''abcdef''"
  using stale_resume_offset by simp

text \<open>
  C4, as the code has it. An attempt resumes at an offset above 0 and its request
  is answered. When the status is outside 2xx or the body is missing, the attempt
  fails with the HTTP error and changes neither the partial file nor the recorded
  sizes. When the response passes that check with a status other than 206, the
  attempt fails with the range error; the recorded partial size becomes 0; the
  partial file is unlinked, or left as it is when the unlink throws; no other file
  changes, so no byte of the response is written; while attempts are left the loop
  goes on with the next attempt number, and after the last attempt the error is
  thrown; and when no size of a destination file is on record, the next attempt
  works out offset 0.
\<close>

theorem range_not_honoured:
  assumes dec: "decideResumeOffset url p sb v w = (off, v1, w1)"
    and off: "0 < off"
    and net: "net w1 = Response res # rest"
  shows "(let w2 = w1\<lparr>net := rest, sent := sent w1 @ [resume_GET url off]\<rparr>;
              v2 = v1\<lparr>existingTmpSize := 0\<rparr>
          in (\<not> ok res \<or> \<not> has_body res \<longrightarrow>
                attempt url p sb v w = (Inl (HttpError (status res)), v1, w2)) \<and>
             (ok res \<and> has_body res \<and> status res \<noteq> 206 \<longrightarrow>
                attempt url p sb v w = (Inl RangeNotHonored, v2, snd (unlink (tmpPath p) w2)) \<and>
                files (snd (unlink (tmpPath p) w2)) =
                  (if unlink_fails w1 then files w1 else (files w1)(tmpPath p := None)) \<and>
                (n < maxRetries \<longrightarrow>
                   attempts url p sb maxRetries n v w =
                   attempts url p sb maxRetries (n + 1) v2 (snd (unlink (tmpPath p) w2))) \<and>
                (n = maxRetries \<longrightarrow>
                   fst (attempts url p sb maxRetries n v w) = Inl RangeNotHonored) \<and>
                (existingFinalSize v1 = 0 \<longrightarrow>
                   (\<forall>w3. decideResumeOffset url p sb v2 w3 = (0, v2, w3)))))"
proof -
  let ?w2 = "w1\<lparr>net := rest, sent := sent w1 @ [resume_GET url off]\<rparr>"
  let ?w' = "snd (unlink (tmpPath p) ?w2)"
  let ?v2 = "v1\<lparr>existingTmpSize := 0\<rparr>"
  have sb: "\<not> sb > 0" using decide_offset_positive [OF dec off] .
  have h: "\<not> ok res \<or> \<not> has_body res \<longrightarrow>
      attempt url p sb v w = (Inl (HttpError (status res)), v1, ?w2)"
    using off net sb by (simp add: attempt_def dec fetch_def resume_GET_def)
  have f: "files ?w' = (if unlink_fails w1 then files w1 else (files w1)(tmpPath p := None))"
    by (auto simp: unlink_def split: option.splits)
  have z: "existingFinalSize v1 = 0 \<longrightarrow> (\<forall>w3. decideResumeOffset url p sb ?v2 w3 = (0, ?v2, w3))"
    using sb by (simp add: decideResumeOffset_def)
  have r: "ok res \<and> has_body res \<and> status res \<noteq> 206 \<longrightarrow>
      attempt url p sb v w = (Inl RangeNotHonored, ?v2, ?w') \<and>
      (n < maxRetries \<longrightarrow>
         attempts url p sb maxRetries n v w = attempts url p sb maxRetries (n + 1) ?v2 ?w') \<and>
      (n = maxRetries \<longrightarrow> fst (attempts url p sb maxRetries n v w) = Inl RangeNotHonored)"
  proof
    assume g: "ok res \<and> has_body res \<and> status res \<noteq> 206"
    have a: "attempt url p sb v w = (Inl RangeNotHonored, ?v2, ?w')"
      using off net g sb by (simp add: attempt_def dec fetch_def resume_GET_def)
    show "attempt url p sb v w = (Inl RangeNotHonored, ?v2, ?w') \<and>
      (n < maxRetries \<longrightarrow>
         attempts url p sb maxRetries n v w = attempts url p sb maxRetries (n + 1) ?v2 ?w') \<and>
      (n = maxRetries \<longrightarrow> fst (attempts url p sb maxRetries n v w) = Inl RangeNotHonored)"
      using a attempts_retry [OF _ a] attempts_give_up [OF _ a] by simp
  qed
  show ?thesis
    unfolding Let_def using h f z r by blast
qed

text \<open>
  A two-byte partial file. A server that answers the resuming request with 200
  and the whole body: the attempt fails, the partial file is gone, the body is
  written nowhere, and the second of three attempts starts at byte 0. A server
  that answers 503: the attempt fails with the HTTP error, and the partial file and
  its recorded size stay.
\<close>

theorem range_not_honoured_witness:
  "attempt ''u'' ''f'' 0 \<lparr>existingFinalSize = 0, existingTmpSize = 2, remoteInfo = None\<rparr>
     w_range_ignored =
     (Inl RangeNotHonored, \<lparr>existingFinalSize = 0, existingTmpSize = 0, remoteInfo = None\<rparr>,
      w_range_ignored\<lparr>net := [], sent := [resume_GET ''u'' 2], files := Map.empty\<rparr>) \<and>
   attempts ''u'' ''f'' 0 3 1 \<lparr>existingFinalSize = 0, existingTmpSize = 2, remoteInfo = None\<rparr>
     w_range_ignored =
   attempts ''u'' ''f'' 0 3 (Suc 1) \<lparr>existingFinalSize = 0, existingTmpSize = 0, remoteInfo = None\<rparr>
     (w_range_ignored\<lparr>net := [], sent := [resume_GET ''u'' 2], files := Map.empty\<rparr>) \<and>
   fst (decideResumeOffset ''u'' ''f'' 0
          \<lparr>existingFinalSize = 0, existingTmpSize = 0, remoteInfo = None\<rparr> w_range_ignored) = 0 \<and>
   attempt ''u'' ''f'' 0 \<lparr>existingFinalSize = 0, existingTmpSize = 2, remoteInfo = None\<rparr>
     w_unavailable =
     (Inl (HttpError 503), \<lparr>existingFinalSize = 0, existingTmpSize = 2, remoteInfo = None\<rparr>,
      w_unavailable\<lparr>net := [resp 206 Map.empty [''cdef''] False],
                     sent := [resume_GET ''u'' 2]\<rparr>)"
proof -
  let ?v = "\<lparr>existingFinalSize = 0, existingTmpSize = 2, remoteInfo = None\<rparr>"
  let ?res = "\<lparr>status = 200, headers = Map.empty, has_body = True, chunks = [''abcdef''],
               stream_error = False\<rparr>"
  let ?bad = "\<lparr>status = 503, headers = Map.empty, has_body = True, chunks = [],
               stream_error = False\<rparr>"
  have d: "decideResumeOffset ''u'' ''f'' 0 ?v w_range_ignored = (2, ?v, w_range_ignored)"
    by (simp add: decideResumeOffset_def)
  have n: "net w_range_ignored = Response ?res # []"
    by (simp add: w_range_ignored_def mk_world_def resp_def)
  have fs: "(files w_range_ignored)(tmpPath ''f'' := None) = Map.empty"
    by (simp add: w_range_ignored_def mk_world_def tmpPath_def)
  have u: "\<not> unlink_fails w_range_ignored" "sent w_range_ignored = []"
    "files w_range_ignored (tmpPath ''f'') = Some ''ab''"
    by (simp_all add: w_range_ignored_def mk_world_def tmpPath_def)
  have one: "attempt ''u'' ''f'' 0 ?v w_range_ignored =
     (Inl RangeNotHonored, \<lparr>existingFinalSize = 0, existingTmpSize = 0, remoteInfo = None\<rparr>,
      w_range_ignored\<lparr>net := [], sent := [resume_GET ''u'' 2], files := Map.empty\<rparr>) \<and>
   attempts ''u'' ''f'' 0 3 1 ?v w_range_ignored =
   attempts ''u'' ''f'' 0 3 (Suc 1) \<lparr>existingFinalSize = 0, existingTmpSize = 0, remoteInfo = None\<rparr>
     (w_range_ignored\<lparr>net := [], sent := [resume_GET ''u'' 2], files := Map.empty\<rparr>) \<and>
   fst (decideResumeOffset ''u'' ''f'' 0
          \<lparr>existingFinalSize = 0, existingTmpSize = 0, remoteInfo = None\<rparr> w_range_ignored) = 0"
    using range_not_honoured [OF d _ n, of 1 3] u
    by (simp add: ok_def unlink_def fs Let_def)
  have d': "decideResumeOffset ''u'' ''f'' 0 ?v w_unavailable = (2, ?v, w_unavailable)"
    by (simp add: decideResumeOffset_def)
  have n': "net w_unavailable = Response ?bad # [resp 206 Map.empty [''cdef''] False]"
    by (simp add: w_unavailable_def mk_world_def resp_def)
  have two: "attempt ''u'' ''f'' 0 ?v w_unavailable =
     (Inl (HttpError 503), ?v,
      w_unavailable\<lparr>net := [resp 206 Map.empty [''cdef''] False],
                     sent := [resume_GET ''u'' 2]\<rparr>)"
    using range_not_honoured [OF d' _ n', of 1 3]
    by (simp add: ok_def Let_def w_unavailable_def mk_world_def)
  show ?thesis
    using one two by simp
qed

text \<open>
  The claim as stated fails twice. A 503 answer to the resuming request is a
  status other than 206, yet the partial file stays and the next attempt asks for
  \<open>bytes=2-\<close> again. And when a destination file is on record beside the partial
  file, the attempt after the ignored range does not start at byte 0: it moves the
  destination file into the partial slot and asks for \<open>bytes=3-\<close>.
\<close>

theorem resume_non_2xx_keeps_partial:
  "(case attempt ''u'' ''f'' 0
           \<lparr>existingFinalSize = 0, existingTmpSize = 2, remoteInfo = None\<rparr> w_unavailable of
      (r, v1, w1) \<Rightarrow>
        r = Inl (HttpError 503) \<and> files w1 ''f.part'' = Some ''ab'' \<and> existingTmpSize v1 = 2) \<and>
   sent (snd (downloadToFile ''u'' ''f'' 3 0 w_unavailable)) =
     [resume_GET ''u'' 2, resume_GET ''u'' 2] \<and>
   sent (snd (downloadToFile ''u'' ''f'' 3 0 w_both_files)) =
     [HEAD_req ''u'', resume_GET ''u'' 2, resume_GET ''u'' 3]"
  by (simp add: dl_eval js_eval w_unavailable_def w_both_files_def)


section \<open>Finalization\<close>





section \<open>The session file\<close>

text \<open>
  C9. \<open>readSessionFile\<close> has no failing result: it returns a record or
  \<open>null\<close> (\<open>None\<close>) for every path and every state. A file that cannot be read
  and a text that \<open>JSON.parse\<close> rejects give \<open>null\<close>. A parsed value with a
  truthy \<open>users\<close> member is returned as it is. A parsed value without one whose
  \<open>cookie\<close> member is a string is turned into the multi-user shape in memory: the
  one user \<open>default\<close> holds that cookie (and the \<open>updated\<close> stamp of the file, or
  the current time), and \<open>lastUsed\<close> is \<open>default\<close>. Nothing is written: the
  state changes in the record of files read only.
\<close>

theorem readSessionFile_soft:
  "(sfiles s file = None \<or> (\<exists>txt. sfiles s file = Some txt \<and> JSON_parse e txt = None)
      \<longrightarrow> fst (readSessionFile e file s) = None) \<and>
   (\<forall>txt data. sfiles s file = Some txt \<and> JSON_parse e txt = Some data \<and>
        truthy (jprop data ''users'')
      \<longrightarrow> fst (readSessionFile e file s) = Some data) \<and>
   (\<forall>txt data c. sfiles s file = Some txt \<and> JSON_parse e txt = Some data \<and>
        \<not> truthy (jprop data ''users'') \<and> jprop data ''cookie'' = Some (JStr c)
      \<longrightarrow> fst (readSessionFile e file s) =
            Some (JObj
              [(''users'',
                JObj [(''default'',
                       JObj [(''cookie'', JStr c),
                             (''updated'',
                              (if truthy (jprop data ''updated'') then the (jprop data ''updated'')
                               else JStr (now_iso e)))])]),
               (''lastUsed'', JStr ''default'')])) \<and>
   snd (readSessionFile e file s) = s\<lparr>reads := reads s @ [file]\<rparr>"
proof -
  have obj: "\<And>data k v. jprop data k = Some v \<Longrightarrow> truthy (Some data)"
    by (case_tac data) simp_all
  have tr: "\<And>data k. truthy (jprop data k) \<Longrightarrow> truthy (Some data)"
    by (case_tac data) simp_all
  show ?thesis
    by (auto simp: readSessionFile_def Let_def obj tr split: option.splits)
qed

text \<open>
  No file, a file in the multi-user shape, and a legacy file
  \<open>{"cookie":"sessionid=old"}\<close>.
\<close>

theorem readSessionFile_soft_witness:
  "fst (readSessionFile (demo_env PLACEHOLDER) ''session.json'' (s_start Map.empty [])) = None \<and>
   fst (readSessionFile (demo_env PLACEHOLDER) ''session.json'' (s_start stored_file [])) =
     Some stored_record \<and>
   fst (readSessionFile (demo_env PLACEHOLDER) ''session.json'' (s_start legacy_file [])) =
     Some (JObj
       [(''users'',
         JObj [(''default'',
                JObj [(''cookie'', JStr ''sessionid=old''),
                      (''updated'', JStr ''2025-01-01T00:00:00.000Z'')])]),
        (''lastUsed'', JStr ''default'')])"
proof -
  have a: "sfiles (s_start Map.empty []) ''session.json'' = None"
    by (simp add: s_start_def)
  have b: \<open>sfiles (s_start stored_file []) ''session.json'' =
        Some ''{"users":{"a@b.c":{"cookie":"sessionid=s1"}},"lastUsed":"a@b.c"}'' \<and>
      JSON_parse (demo_env PLACEHOLDER)
        ''{"users":{"a@b.c":{"cookie":"sessionid=s1"}},"lastUsed":"a@b.c"}'' = Some stored_record \<and>
      truthy (jprop stored_record ''users'')\<close>
    by (simp add: s_start_def stored_file_def demo_env_def demo_parse_def stored_record_def)
  have c: \<open>sfiles (s_start legacy_file []) ''session.json'' = Some ''{"cookie":"sessionid=old"}'' \<and>
      JSON_parse (demo_env PLACEHOLDER) ''{"cookie":"sessionid=old"}'' =
        Some (JObj [(''cookie'', JStr ''sessionid=old'')]) \<and>
      \<not> truthy (jprop (JObj [(''cookie'', JStr ''sessionid=old'')]) ''users'') \<and>
      jprop (JObj [(''cookie'', JStr ''sessionid=old'')]) ''cookie'' = Some (JStr ''sessionid=old'')\<close>
    by (simp add: s_start_def legacy_file_def demo_env_def demo_parse_def)
  have n: "now_iso (demo_env PLACEHOLDER) = ''2025-01-01T00:00:00.000Z''"
    by (simp add: demo_env_def)
  from readSessionFile_soft [of "s_start Map.empty []" "''session.json''" "demo_env PLACEHOLDER"] a
  have 1: "fst (readSessionFile (demo_env PLACEHOLDER) ''session.json'' (s_start Map.empty [])) = None"
    by blast
  from readSessionFile_soft [of "s_start stored_file []" "''session.json''" "demo_env PLACEHOLDER"] b
  have 2: "fst (readSessionFile (demo_env PLACEHOLDER) ''session.json'' (s_start stored_file [])) =
      Some stored_record"
    by blast
  from readSessionFile_soft [of "s_start legacy_file []" "''session.json''" "demo_env PLACEHOLDER"] c
  have 3: "fst (readSessionFile (demo_env PLACEHOLDER) ''session.json'' (s_start legacy_file [])) =
     Some (JObj
       [(''users'',
         JObj [(''default'',
                JObj [(''cookie'', JStr ''sessionid=old''),
                      (''updated'',
                       (if truthy (jprop (JObj [(''cookie'', JStr ''sessionid=old'')]) ''updated'')
                        then the (jprop (JObj [(''cookie'', JStr ''sessionid=old'')]) ''updated'')
                        else JStr (now_iso (demo_env PLACEHOLDER))))])]),
        (''lastUsed'', JStr ''default'')])"
    by blast
  show ?thesis
    using 1 2 3 by (simp add: n)
qed


section \<open>Fresh Login\<close>

lemma rawRequest_active:
  "rawRequest rq s = (r, s1) \<Longrightarrow>
   ACTIVE_COOKIE s1 = ACTIVE_COOKIE s \<and> sfiles s1 = sfiles s \<and> reads s1 = reads s"
  by (auto simp: rawRequest_def split: list.splits)

lemma login_csrf_active:
  assumes "login_csrf e s = (r, s1)"
  shows "ACTIVE_COOKIE s1 = ACTIVE_COOKIE s"
proof -
  obtain a sa where p: "rawRequest page_request s = (a, sa)"
    by (cases "rawRequest page_request s")
  obtain b sb where c: "rawRequest core_request sa = (b, sb)"
    by (cases "rawRequest core_request sa")
  show ?thesis
    using assms rawRequest_active [OF p] rawRequest_active [OF c]
    by (auto simp: login_csrf_def p c Let_def
        split: raw_result.splits if_splits option.splits json.splits)
qed

lemma login_check_active:
  assumes "login_check e email store csrf s = (r, s1)"
  shows "ACTIVE_COOKIE s1 = ACTIVE_COOKIE s"
proof -
  obtain a sa where p: "rawRequest (check_request email store csrf) s = (a, sa)"
    by (cases "rawRequest (check_request email store csrf) s")
  show ?thesis
    using assms rawRequest_active [OF p]
    by (auto simp: login_check_def p Let_def split: raw_result.splits if_splits)
qed

text \<open>
  C6. The login has its token and the precheck is answered. Then the login goes
  on to the password step (the request to \<open>login-authentication\<close> is sent next,
  and the result is the one of \<open>login_submit\<close>) exactly when the parsed answer is
  truthy with \<open>status\<close> equal to the string \<open>success\<close> and \<open>message\<close> equal to
  the string \<open>get-pass\<close>. For every other answer the login fails after the
  precheck request, nothing more is sent and \<open>ACTIVE_COOKIE\<close> is what it was;
  the error carries the status and the message of the server when the status is
  not \<open>success\<close>, the message when only the message differs, and the HTTP status
  when the body is not usable JSON.
\<close>

theorem precheck_gate:
  assumes em: "email \<noteq> []" and pw: "password \<noteq> []"
    and tok: "login_csrf e s = (Inr (store, csrf), s1)"
    and net: "raw_net s1 = RawResponse r # rest"
  shows
    "(let s2 = s1\<lparr>raw_net := rest, raw_sent := raw_sent s1 @ [check_request email store csrf]\<rparr>;
          jar = applySetCookie store (set_cookie r);
          jCheck = JSON_parse e (r_body r);
          run = loginWithCredentialsInline e (Some email) (Some password) s
      in if truthy jCheck \<and> jprop (the jCheck) ''status'' = Some (JStr ''success'') \<and>
            jprop (the jCheck) ''message'' = Some (JStr ''get-pass'')
         then raw_sent (snd run) = raw_sent s2 @ [submit_request email password jar csrf] \<and>
              fst run = fst (login_submit e email password jar csrf s2)
         else snd run = s2 \<and> ACTIVE_COOKIE (snd run) = ACTIVE_COOKIE s \<and>
              fst run =
                Inl (if \<not> truthy jCheck then CheckInvalidJSON (r_status r)
                     else if jprop (the jCheck) ''status'' \<noteq> Some (JStr ''success'')
                     then CheckFailed (jprop (the jCheck) ''status'') (jprop (the jCheck) ''message'')
                     else UnsupportedFlow (jprop (the jCheck) ''message'')))"
proof -
  let ?s2 = "s1\<lparr>raw_net := rest, raw_sent := raw_sent s1 @ [check_request email store csrf]\<rparr>"
  have rq: "rawRequest (check_request email store csrf) s1 = (RawResponse r, ?s2)"
    using net by (simp add: rawRequest_def)
  have ac: "ACTIVE_COOKIE s1 = ACTIVE_COOKIE s"
    using login_csrf_active [OF tok] .
  have sub: "\<And>jar. raw_sent (snd (login_submit e email password jar csrf ?s2)) =
      raw_sent ?s2 @ [submit_request email password jar csrf]"
    by (auto simp: login_submit_def rawRequest_def Let_def split: list.splits raw_result.splits)
  show ?thesis
    using em pw ac sub
    by (auto simp: loginWithCredentialsInline_def str_truthy_def tok login_check_def rq Let_def)
qed

text \<open>
  The precheck answers \<open>get-pass\<close>: the third request goes to
  \<open>login-authentication\<close>. The precheck answers \<open>get-otp\<close>: the login fails
  with that message after two requests and no session is set.
\<close>

theorem precheck_gate_witness:
  "raw_sent (snd (loginWithCredentialsInline (demo_env PLACEHOLDER) (Some ''a@b.c'') (Some ''pw'')
                    (s_start Map.empty good_login))) =
     [page_request, check_request ''a@b.c'' [(''csrftoken'', ''tok'')] (JStr ''tok''),
      submit_request ''a@b.c'' ''pw'' [(''csrftoken'', ''tok'')] (JStr ''tok'')] \<and>
   fst (loginWithCredentialsInline (demo_env PLACEHOLDER) (Some ''a@b.c'') (Some ''pw'')
          (s_start Map.empty otp_login)) = Inl (UnsupportedFlow (Some (JStr ''get-otp''))) \<and>
   raw_sent (snd (loginWithCredentialsInline (demo_env PLACEHOLDER) (Some ''a@b.c'') (Some ''pw'')
                    (s_start Map.empty otp_login))) =
     [page_request, check_request ''a@b.c'' [(''csrftoken'', ''tok'')] (JStr ''tok'')] \<and>
   ACTIVE_COOKIE (snd (loginWithCredentialsInline (demo_env PLACEHOLDER) (Some ''a@b.c'')
                    (Some ''pw'') (s_start Map.empty otp_login))) = None"
proof -
  let ?e = "demo_env PLACEHOLDER"
  let ?s1 = "(s_start Map.empty good_login)\<lparr>raw_net := tl good_login, raw_sent := [page_request]\<rparr>"
  let ?o1 = "(s_start Map.empty otp_login)\<lparr>raw_net := tl otp_login, raw_sent := [page_request]\<rparr>"
  have t: "login_csrf ?e (s_start Map.empty good_login) =
      (Inr ([(''csrftoken'', ''tok'')], JStr ''tok''), ?s1)"
    by (simp add: login_csrf_def rawRequest_def s_start_def good_login_def raw_def
        applySetCookie_def setCookieLine_def store_get_or_null_def store_get_def js_eval Let_def)
  have n: \<open>raw_net ?s1 =
      RawResponse \<lparr>r_status = 200, set_cookie = Some [],
                   r_body = ''{"status":"success","message":"get-pass"}''\<rparr> #
      [raw [''sessionid=s2; HttpOnly; Path=/'', ''lang=fa''] ''{"status":"success"}'']\<close>
    by (simp add: s_start_def good_login_def raw_def)
  have good: "raw_sent (snd (loginWithCredentialsInline ?e (Some ''a@b.c'') (Some ''pw'')
                    (s_start Map.empty good_login))) =
     [page_request, check_request ''a@b.c'' [(''csrftoken'', ''tok'')] (JStr ''tok''),
      submit_request ''a@b.c'' ''pw'' [(''csrftoken'', ''tok'')] (JStr ''tok'')]"
    using precheck_gate [OF _ _ t n, of "''a@b.c''" "''pw''"]
    by (simp add: demo_env_def demo_parse_def applySetCookie_def s_start_def Let_def)
  have t': "login_csrf ?e (s_start Map.empty otp_login) =
      (Inr ([(''csrftoken'', ''tok'')], JStr ''tok''), ?o1)"
    by (simp add: login_csrf_def rawRequest_def s_start_def otp_login_def raw_def
        applySetCookie_def setCookieLine_def store_get_or_null_def store_get_def js_eval Let_def)
  have n': \<open>raw_net ?o1 =
      RawResponse \<lparr>r_status = 200, set_cookie = Some [],
                   r_body = ''{"status":"success","message":"get-otp"}''\<rparr> # []\<close>
    by (simp add: s_start_def otp_login_def raw_def)
  have otp: "fst (loginWithCredentialsInline ?e (Some ''a@b.c'') (Some ''pw'')
          (s_start Map.empty otp_login)) = Inl (UnsupportedFlow (Some (JStr ''get-otp''))) \<and>
      raw_sent (snd (loginWithCredentialsInline ?e (Some ''a@b.c'') (Some ''pw'')
                    (s_start Map.empty otp_login))) =
        [page_request, check_request ''a@b.c'' [(''csrftoken'', ''tok'')] (JStr ''tok'')] \<and>
      ACTIVE_COOKIE (snd (loginWithCredentialsInline ?e (Some ''a@b.c'')
                    (Some ''pw'') (s_start Map.empty otp_login))) = None"
    using precheck_gate [OF _ _ t' n', of "''a@b.c''" "''pw''"]
    by (simp add: demo_env_def demo_parse_def applySetCookie_def s_start_def Let_def)
  show ?thesis
    using good otp by simp
qed

text \<open>
  C7, as the code has it. The token is there, the precheck has passed and the
  login request is answered with a JSON body whose \<open>status\<close> is \<open>success\<close>. The
  jar is the cookie store after the cookies of that answer. When the jar has no
  \<open>sessionid\<close>, or has one with an empty value, the login fails with the
  missing-session-cookie error and \<open>ACTIVE_COOKIE\<close> is what it was. Otherwise the login
  succeeds and \<open>ACTIVE_COOKIE\<close> is exactly \<open>csrftoken=T; sessionid=S\<close>, where
  \<open>S\<close> is the value of \<open>sessionid\<close> in the jar and \<open>T\<close> the value of
  \<open>csrftoken\<close> in the jar or, when the jar has none or an empty one, the token the
  login worked with; no other cookie of the jar is in it.
\<close>

theorem final_cookie:
  assumes em: "email \<noteq> []" and pw: "password \<noteq> []"
    and tok: "login_csrf e s = (Inr (store, csrf), s1)"
    and chk: "login_check e email store csrf s1 = (Inr store1, s2)"
    and net: "raw_net s2 = RawResponse r # rest"
    and parse: "JSON_parse e (r_body r) = Some j"
    and succ: "jprop j ''status'' = Some (JStr ''success'')"
  shows
    "(let jar = applySetCookie store1 (set_cookie r);
          run = loginWithCredentialsInline e (Some email) (Some password) s
      in if store_get jar ''sessionid'' = None \<or> store_get jar ''sessionid'' = Some []
         then fst run = Inl SessionCookieMissing \<and> ACTIVE_COOKIE (snd run) = ACTIVE_COOKIE s
         else fst run = Inr () \<and>
              ACTIVE_COOKIE (snd run) =
                Some (JStr (''csrftoken='' @
                            (case store_get jar ''csrftoken'' of
                               None \<Rightarrow> js_string csrf
                             | Some t \<Rightarrow> if t = [] then js_string csrf else t) @
                            ''; sessionid='' @ the (store_get jar ''sessionid''))))"
proof -
  let ?s3 = "s2\<lparr>raw_net := rest,
                raw_sent := raw_sent s2 @ [submit_request email password store1 csrf]\<rparr>"
  have rq: "rawRequest (submit_request email password store1 csrf) s2 = (RawResponse r, ?s3)"
    using net by (simp add: rawRequest_def)
  have ac: "ACTIVE_COOKIE s2 = ACTIVE_COOKIE s"
    using login_csrf_active [OF tok] login_check_active [OF chk] by simp
  have tr: "truthy (Some j)"
    using succ by (cases j) simp_all
  show ?thesis
    using em pw ac tr parse succ
    by (auto simp: loginWithCredentialsInline_def str_truthy_def tok chk login_submit_def rq
        store_get_or_null_def Let_def split: option.splits)
qed

text \<open>
  The good login: the jar holds \<open>csrftoken\<close>, \<open>sessionid\<close> and \<open>lang\<close>, the
  session cookie string has the first two.
\<close>

theorem final_cookie_witness:
  "fst (loginWithCredentialsInline (demo_env PLACEHOLDER) (Some ''a@b.c'') (Some ''pw'')
          (s_start Map.empty good_login)) = Inr () \<and>
   ACTIVE_COOKIE (snd (loginWithCredentialsInline (demo_env PLACEHOLDER) (Some ''a@b.c'')
          (Some ''pw'') (s_start Map.empty good_login))) =
     Some (JStr ''csrftoken=tok; sessionid=s2'') \<and>
   applySetCookie [(''csrftoken'', ''tok'')] (Some [''sessionid=s2; HttpOnly; Path=/'', ''lang=fa'']) =
     [(''csrftoken'', ''tok''), (''sessionid'', ''s2''), (''lang'', ''fa'')]"
proof -
  let ?e = "demo_env PLACEHOLDER"
  let ?s1 = "(s_start Map.empty good_login)\<lparr>raw_net := tl good_login, raw_sent := [page_request]\<rparr>"
  let ?s2 = "?s1\<lparr>raw_net := tl (tl good_login),
       raw_sent := [page_request, check_request ''a@b.c'' [(''csrftoken'', ''tok'')] (JStr ''tok'')]\<rparr>"
  have t: "login_csrf ?e (s_start Map.empty good_login) =
      (Inr ([(''csrftoken'', ''tok'')], JStr ''tok''), ?s1)"
    by (simp add: login_csrf_def rawRequest_def s_start_def good_login_def raw_def
        applySetCookie_def setCookieLine_def store_get_or_null_def store_get_def js_eval Let_def)
  have c: "login_check ?e ''a@b.c'' [(''csrftoken'', ''tok'')] (JStr ''tok'') ?s1 =
      (Inr [(''csrftoken'', ''tok'')], ?s2)"
    by (simp add: login_check_def rawRequest_def s_start_def good_login_def raw_def
        applySetCookie_def demo_env_def demo_parse_def Let_def)
  have n: \<open>raw_net ?s2 =
      RawResponse \<lparr>r_status = 200,
                   set_cookie = Some [''sessionid=s2; HttpOnly; Path=/'', ''lang=fa''],
                   r_body = ''{"status":"success"}''\<rparr> # []\<close>
    by (simp add: s_start_def good_login_def raw_def)
  have p: \<open>JSON_parse ?e ''{"status":"success"}'' = Some (JObj [(''status'', JStr ''success'')])\<close>
    by (simp add: demo_env_def demo_parse_def)
  have jar: "applySetCookie [(''csrftoken'', ''tok'')]
        (Some [''sessionid=s2; HttpOnly; Path=/'', ''lang=fa'']) =
      [(''csrftoken'', ''tok''), (''sessionid'', ''s2''), (''lang'', ''fa'')]"
    by (simp add: applySetCookie_def setCookieLine_def js_eval Let_def)
  show ?thesis
    using final_cookie [OF _ _ t c n, of "''pw''" "JObj [(''status'', JStr ''success'')]"] p jar
    by (simp add: store_get_def Let_def)
qed

text \<open>
  The claim as stated fails: the login answers \<open>success\<close> with
  \<open>Set-Cookie: sessionid=; Path=/\<close>. The jar then has a \<open>sessionid\<close> cookie, yet
  the login fails with the missing-session-cookie error and sets no session.
\<close>

theorem empty_session_cookie_rejected:
  "applySetCookie [(''csrftoken'', ''tok'')] (Some [''sessionid=; Path=/'']) =
     [(''csrftoken'', ''tok''), (''sessionid'', [])] \<and>
   fst (loginWithCredentialsInline (demo_env PLACEHOLDER) (Some ''a@b.c'') (Some ''pw'')
          (s_start Map.empty empty_session_login)) = Inl SessionCookieMissing \<and>
   ACTIVE_COOKIE (snd (loginWithCredentialsInline (demo_env PLACEHOLDER) (Some ''a@b.c'')
          (Some ''pw'') (s_start Map.empty empty_session_login))) = None"
  by (simp add: session_eval js_eval empty_session_login_def)


section \<open>Session acquisition\<close>

text \<open>
  C8. The override cookie is neither empty nor the placeholder, and the profile
  endpoint answers it with an authenticated profile. Then \<open>prepareSession\<close>
  returns that profile with the source of step 1 (\<open>env\<close>), whatever user,
  password, session file and \<open>forceLogin\<close> flag it was given and whatever the
  session file holds. The state differs from the one before in \<open>ACTIVE_COOKIE\<close>
  only, which is the override cookie: no session file was read or written and no
  login request was sent.
\<close>

theorem override_wins:
  assumes "COOKIE e \<noteq> []" "COOKIE e \<noteq> PLACEHOLDER"
    and "core_data e (Some (COOKIE e)) = Some core"
    and "truthy (opt_prop (opt_prop (opt_prop (Some core) ''auth'') ''details'')
                   ''is_authenticated'')"
  shows "prepareSession e userEmail userPassword sessionFile forceLogin s =
           ((Some core, ''env''), s\<lparr>ACTIVE_COOKIE := Some (JStr (COOKIE e))\<rparr>)"
  using assms
  by (simp add: prepareSession_def verify_def cookie_header_def Let_def)

text \<open>
  \<open>MK_COOKIE\<close> holds the valid session \<open>s1\<close>, and the session file has a valid
  entry for the user asked for: the override is taken and the file is not read.
\<close>

theorem override_wins_witness:
  "prepareSession (demo_env (COOKIE_of (Some '' sessionid=s1 '') None stored_file))
     (Some ''a@b.c'') (Some ''pw'') (Some ''session.json'') False (s_start stored_file good_login) =
     ((Some (profile True), ''env''),
      \<lparr>ACTIVE_COOKIE = Some (JStr ''sessionid=s1''), sfiles = stored_file, reads = [],
       raw_net = good_login, raw_sent = []\<rparr>) \<and>
   fst (prepareSession (demo_env PLACEHOLDER)
     (Some ''a@b.c'') (Some ''pw'') (Some ''session.json'') False (s_start stored_file good_login)) =
     (Some (profile True), ''stored-user'')"
proof -
  have ck: "COOKIE_of (Some '' sessionid=s1 '') None stored_file = ''sessionid=s1''"
    by (simp add: COOKIE_of_def js_eval)
  have h: "COOKIE (demo_env ''sessionid=s1'') \<noteq> []"
    "COOKIE (demo_env ''sessionid=s1'') \<noteq> PLACEHOLDER"
    "core_data (demo_env ''sessionid=s1'') (Some (COOKIE (demo_env ''sessionid=s1''))) =
       Some (profile True)"
    "truthy (opt_prop (opt_prop (opt_prop (Some (profile True)) ''auth'') ''details'')
               ''is_authenticated'')"
    by (simp_all add: demo_env_def PLACEHOLDER_def demo_core_data_def profile_def)
  have st: "fst (prepareSession (demo_env PLACEHOLDER)
     (Some ''a@b.c'') (Some ''pw'') (Some ''session.json'') False (s_start stored_file good_login)) =
     (Some (profile True), ''stored-user'')"
    by (simp add: session_eval js_eval stored_file_def)
  show ?thesis
    using override_wins [OF h, of "Some ''a@b.c''" "Some ''pw''" "Some ''session.json''" False
        "s_start stored_file good_login"] st
    by (simp add: ck demo_env_def s_start_def)
qed

text \<open>
  C5 at a failing input. The user gives an e-mail address and a password; the
  override cookie is set but stale, so step 1 does not verify it; the session file
  does not exist. \<open>ACTIVE_COOKIE\<close> still holds the stale cookie when step 3 tests
  \<open>!ACTIVE_COOKIE || forceLogin\<close>, so no login request is sent and the result is
  \<open>none\<close>. Without the override cookie the same call logs in, stores the cookie
  under the user and returns \<open>fresh-login\<close>.
\<close>

theorem stale_override_blocks_login:
  "prepareSession (demo_env ''sessionid=stale'') (Some ''a@b.c'') (Some ''pw'')
     (Some ''session.json'') False (s_start Map.empty good_login) =
     ((None, ''none''),
      \<lparr>ACTIVE_COOKIE = Some (JStr ''sessionid=stale''), sfiles = Map.empty,
       reads = [''session.json''], raw_net = good_login, raw_sent = []\<rparr>) \<and>
   verify (demo_env ''sessionid=stale'')
     (snd (prepareSession (demo_env ''sessionid=stale'') (Some ''a@b.c'') (Some ''pw'')
             (Some ''session.json'') False (s_start Map.empty good_login))) = None \<and>
   fst (prepareSession (demo_env PLACEHOLDER) (Some ''a@b.c'') (Some ''pw'')
          (Some ''session.json'') False (s_start Map.empty good_login)) =
     (Some (profile True), ''fresh-login'') \<and>
   length (raw_sent (snd (prepareSession (demo_env PLACEHOLDER) (Some ''a@b.c'') (Some ''pw'')
          (Some ''session.json'') False (s_start Map.empty good_login)))) = 3"
  by (simp add: session_eval js_eval)

text \<open>So the credentials were never sent although no session was verified.\<close>

theorem stale_override_sends_nothing:
  "raw_sent (snd (prepareSession (demo_env ''sessionid=stale'') (Some ''a@b.c'') (Some ''pw'')
     (Some ''session.json'') False (s_start Map.empty good_login))) = []"
  using stale_override_blocks_login by simp


end
